theory Spec2Isabelle
  imports Complex_Main "HOL-Library.Log_Nat"
begin

section \<open>JavaScript values\<close>

text \<open>
  The validators of the icon generator's command line read and write one
  JavaScript object, \<open>argv\<close>. Its property values are the values a command
  line parser or a JSON profile puts there: \<open>undefined\<close>, \<open>null\<close>, booleans,
  numbers, strings and arrays of such values.

  A Number is NaN, an infinity or a finite value; the two zeros, which
  \<open>===\<close> does not distinguish, are one value. A string is a list of code
  units below U+0100.
\<close>

datatype jsnum = NaN | PInf | NInf | Fin rat

datatype jsval =
    Undefined
  | Null
  | Bool bool
  | Num jsnum
  | Str string
  | Arr "jsval list"

text \<open>Reading a property that is not there gives \<open>undefined\<close>.\<close>

type_synonym argv = "string \<Rightarrow> jsval"

text \<open>\<open>!value\<close> is the negation of \<open>truthy value\<close> (ToBoolean).\<close>

fun truthy :: "jsval \<Rightarrow> bool" where
  "truthy Undefined = False"
| "truthy Null = False"
| "truthy (Bool b) = b"
| "truthy (Num NaN) = False"
| "truthy (Num (Fin q)) = (q \<noteq> 0)"
| "truthy (Num PInf) = True"
| "truthy (Num NInf) = True"
| "truthy (Str s) = (s \<noteq> [])"
| "truthy (Arr xs) = True"

text \<open>\<open>a || b\<close>\<close>

definition js_or :: "jsval \<Rightarrow> jsval \<Rightarrow> jsval" where
  "js_or a b = (if truthy a then a else b)"

text \<open>\<open>x < c\<close> and \<open>x > c\<close> for a Number \<open>x\<close> and a finite constant \<open>c\<close>;
  every comparison with NaN is false.\<close>

fun num_lt :: "jsnum \<Rightarrow> rat \<Rightarrow> bool" where
  "num_lt (Fin q) c = (q < c)"
| "num_lt NInf c = True"
| "num_lt PInf c = False"
| "num_lt NaN c = False"

fun num_gt :: "jsnum \<Rightarrow> rat \<Rightarrow> bool" where
  "num_gt (Fin q) c = (c < q)"
| "num_gt PInf c = True"
| "num_gt NInf c = False"
| "num_gt NaN c = False"

definition isNaN :: "jsnum \<Rightarrow> bool" where
  "isNaN x = (x = NaN)"

section \<open>Rounding to a Number\<close>

text \<open>
  A mathematical value becomes the nearest binary64 value, ties to the even
  significand; a value that rounds to \<open>2 ^ 1024\<close> or beyond is an infinity.
\<close>

definition pow2 :: "int \<Rightarrow> rat" where
  "pow2 e = (if 0 \<le> e then 2 ^ nat e else 1 / 2 ^ nat (- e))"

definition pow10 :: "int \<Rightarrow> rat" where
  "pow10 e = (if 0 \<le> e then 10 ^ nat e else 1 / 10 ^ nat (- e))"

text \<open>\<open>ilog2 a\<close> is \<open>\<lfloor>log\<^sub>2 a\<rfloor>\<close> for \<open>a > 0\<close>.\<close>

definition ilog2 :: "rat \<Rightarrow> int" where
  "ilog2 a = (let (n, d) = quotient_of a; k = bitlen n - bitlen d
              in if pow2 k \<le> a then k else k - 1)"

definition roundHalfEven :: "rat \<Rightarrow> int" where
  "roundHalfEven q =
     (let f = \<lfloor>q\<rfloor>; d = q - of_int f
      in if d < 1 / 2 then f
         else if 1 / 2 < d then f + 1
         else if even f then f else f + 1)"

definition toNumber :: "rat \<Rightarrow> jsnum" where
  "toNumber q =
     (if q = 0 then Fin 0
      else let a = \<bar>q\<bar>;
               e = max (ilog2 a) (- 1022);
               ulp = pow2 (e - 52);
               r = of_int (roundHalfEven (a / ulp)) * ulp
           in if 2 ^ 1024 \<le> r then (if q < 0 then NInf else PInf)
              else Fin (if q < 0 then - r else r))"

section \<open>String built-ins\<close>

text \<open>White space and line terminators among the code units below U+0100.\<close>

definition isWhiteSpace :: "char \<Rightarrow> bool" where
  "isWhiteSpace c = (of_char c \<in> {9, 10, 11, 12, 13, 32, 160 :: nat})"

definition isDigit :: "char \<Rightarrow> bool" where
  "isDigit c = (c \<in> set ''0123456789'')"

definition digitVal :: "char \<Rightarrow> int" where
  "digitVal c = int (of_char c) - 48"

definition digitsVal :: "string \<Rightarrow> int" where
  "digitsVal ds = foldl (\<lambda>a c. 10 * a + digitVal c) 0 ds"

text \<open>\<open>/^[0-9A-Fa-f]+$/.test(s)\<close>\<close>

definition isHexDigit :: "char \<Rightarrow> bool" where
  "isHexDigit c = (c \<in> set ''0123456789ABCDEFabcdef'')"

definition hex_test :: "string \<Rightarrow> bool" where
  "hex_test s = (s \<noteq> [] \<and> list_all isHexDigit s)"

text \<open>\<open>s.split(c)\<close> for a one-character separator: never an empty list.\<close>

fun split_on :: "char \<Rightarrow> string \<Rightarrow> string list" where
  "split_on c [] = [[]]"
| "split_on c (x # xs) =
     (if x = c then [] # split_on c xs
      else (case split_on c xs of
              f # fs \<Rightarrow> (x # f) # fs
            | [] \<Rightarrow> [[x]]))"

fun starts_with :: "string \<Rightarrow> string \<Rightarrow> bool" where
  "starts_with s [] = True"
| "starts_with [] (p # ps) = False"
| "starts_with (x # xs) (p # ps) = (x = p \<and> starts_with xs ps)"

text \<open>\<open>s.includes(p)\<close> on strings: \<open>p\<close> occurs in \<open>s\<close>.\<close>

fun includes_str :: "string \<Rightarrow> string \<Rightarrow> bool" where
  "includes_str [] p = (p = [])"
| "includes_str (x # xs) p = (starts_with (x # xs) p \<or> includes_str xs p)"

definition endsWith :: "string \<Rightarrow> string \<Rightarrow> bool" where
  "endsWith s p = starts_with (rev s) (rev p)"

text \<open>
  \<open>parseInt(s, 10)\<close> on a string: leading white space is dropped, a sign is
  read, and the longest run of decimal digits is the value; with no digit
  the result is NaN. With radix 10 no \<open>0x\<close> prefix is recognised.
\<close>

definition parseInt_str :: "string \<Rightarrow> jsnum" where
  "parseInt_str s =
     (let t = dropWhile isWhiteSpace s;
          neg = (t \<noteq> [] \<and> hd t = CHR ''-'');
          u = (if t \<noteq> [] \<and> (hd t = CHR ''+'' \<or> hd t = CHR ''-'') then tl t else t);
          ds = takeWhile isDigit u
      in if ds = [] then NaN
         else toNumber (of_int (if neg then - digitsVal ds else digitsVal ds)))"

text \<open>
  \<open>parseFloat(s)\<close> on a string: after leading white space, the longest prefix
  that is a signed decimal literal (\<open>Infinity\<close>, or digits with an optional
  fraction and an optional exponent); NaN when there is none.
\<close>

definition parseFloat_str :: "string \<Rightarrow> jsnum" where
  "parseFloat_str s =
     (let t = dropWhile isWhiteSpace s;
          neg = (t \<noteq> [] \<and> hd t = CHR ''-'');
          u = (if t \<noteq> [] \<and> (hd t = CHR ''+'' \<or> hd t = CHR ''-'') then tl t else t)
      in if starts_with u ''Infinity'' then (if neg then NInf else PInf)
         else
           let ip = takeWhile isDigit u;
               r1 = dropWhile isDigit u;
               dot = (r1 \<noteq> [] \<and> hd r1 = CHR ''.'');
               fp = (if dot then takeWhile isDigit (tl r1) else []);
               r2 = (if dot then dropWhile isDigit (tl r1) else r1);
               ex = (r2 \<noteq> [] \<and> (hd r2 = CHR ''e'' \<or> hd r2 = CHR ''E''));
               r3 = (if ex then tl r2 else []);
               eneg = (r3 \<noteq> [] \<and> hd r3 = CHR ''-'');
               r4 = (if r3 \<noteq> [] \<and> (hd r3 = CHR ''+'' \<or> hd r3 = CHR ''-'') then tl r3 else r3);
               ed = takeWhile isDigit r4;
               e = (if eneg then - digitsVal ed else digitsVal ed);
               m = of_int (digitsVal (ip @ fp)) * pow10 (e - int (length fp))
           in if ip = [] \<and> fp = [] then NaN
              else toNumber (if neg then - m else m))"

section \<open>The collaborators\<close>

text \<open>
  What the validators import and do not define: the Mode Catalog
  (\<open>Object.keys(modes)\<close>), the names of the generators
  (\<open>Object.keys(generators)\<close>), the table \<open>defaultParams\<close>, the application
  directory, the working directory, the path of the bundled sample icon, the
  file system probes, the path functions, and \<open>Number::toString\<close> on the
  finite numbers that are not integers of absolute value at most \<open>2 ^ 53\<close>.
\<close>

record env =
  modesList :: "string list"
  generatorKeys :: "string list"
  defaultParams_quality :: jsval
  defaultParams_pngColor :: jsval
  defaultParams_splashscreenColor :: jsval
  defaultParams_svgColor :: jsval
  defaultParams_splashscreenIconRatio :: jsval
  appDir :: string
  cwd :: string
  sampleIcon :: string
  existsSync :: "string \<Rightarrow> bool"
  isDirectory :: "string \<Rightarrow> bool"
  getPngSize :: "string \<Rightarrow> nat \<times> nat"
  resolve :: "string \<Rightarrow> string \<Rightarrow> string"
  untildify :: "string \<Rightarrow> string"
  isAbsolute :: "string \<Rightarrow> bool"
  Number_toString :: "rat \<Rightarrow> string"

section \<open>Conversion to a string\<close>

fun natToString :: "nat \<Rightarrow> string" where
  "natToString n =
     (if n < 10 then [char_of (48 + n)]
      else natToString (n div 10) @ [char_of (48 + n mod 10)])"

declare natToString.simps [simp del]

definition intToString :: "int \<Rightarrow> string" where
  "intToString i = (if i < 0 then CHR ''-'' # natToString (nat (- i)) else natToString (nat i))"

text \<open>An integer of absolute value at most \<open>2 ^ 53\<close> prints as its decimal digits.\<close>

definition numToString :: "env \<Rightarrow> jsnum \<Rightarrow> string" where
  "numToString E x =
     (case x of
        NaN \<Rightarrow> ''NaN''
      | PInf \<Rightarrow> ''Infinity''
      | NInf \<Rightarrow> ''-Infinity''
      | Fin q \<Rightarrow>
          if q = of_int \<lfloor>q\<rfloor> \<and> \<bar>q\<bar> \<le> 2 ^ 53 then intToString \<lfloor>q\<rfloor>
          else Number_toString E q)"

text \<open>ToString; an array joins its elements with commas, \<open>undefined\<close> and
  \<open>null\<close> elements giving the empty string.\<close>

fun toString :: "env \<Rightarrow> jsval \<Rightarrow> string"
  and join :: "env \<Rightarrow> jsval list \<Rightarrow> string" where
  "toString E Undefined = ''undefined''"
| "toString E Null = ''null''"
| "toString E (Bool b) = (if b then ''true'' else ''false'')"
| "toString E (Num x) = numToString E x"
| "toString E (Str s) = s"
| "toString E (Arr xs) = join E xs"
| "join E [] = []"
| "join E [x] = (if x = Undefined \<or> x = Null then [] else toString E x)"
| "join E (x # y # ys) =
     (if x = Undefined \<or> x = Null then [] else toString E x) @ CHR '','' # join E (y # ys)"

definition parseInt :: "env \<Rightarrow> jsval \<Rightarrow> jsnum" where
  "parseInt E v = parseInt_str (toString E v)"

definition parseFloat :: "env \<Rightarrow> jsval \<Rightarrow> jsnum" where
  "parseFloat E v = parseFloat_str (toString E v)"

text \<open>\<open>value.length\<close> of a value that is neither \<open>undefined\<close> nor \<open>null\<close>;
  \<open>None\<close> is \<open>undefined\<close>.\<close>

fun js_length :: "jsval \<Rightarrow> nat option" where
  "js_length (Str s) = Some (length s)"
| "js_length (Arr xs) = Some (length xs)"
| "js_length v = None"

section \<open>Fatal errors\<close>

text \<open>
  \<open>die\<close> prints its message and leaves the process with status 1. A message
  is its template and the value interpolated in it. A call of a method the
  value does not have, or of \<open>untildify\<close> on a value that is not a string,
  throws a TypeError that nothing catches. Either way the outcome carries
  the object as it is when the process stops.
\<close>

datatype message =
    Profile_not_exists
  | Profile_not_json jsval
  | Invalid_mode jsval
  | Invalid_include jsval
  | Invalid_quality_number
  | Invalid_quality_level jsval
  | Unknown_filter jsval
  | Invalid_padding
  | Invalid_padding_not_numbers
  | Invalid_padding_not_positive
  | Icon_not_exists jsval
  | Icon_not_png
  | Icon_too_small
  | Background_not_exists jsval
  | Background_not_png
  | Background_too_small
  | Invalid_color string jsval
  | Invalid_ratio_number
  | Invalid_ratio jsval
  | Output_required
  | Invalid_assets jsval
  | Invalid_parameter string

datatype error = Fatal message | TypeError

type_synonym result = "(error \<times> argv) + argv"

definition die :: "message \<Rightarrow> argv \<Rightarrow> result" where
  "die msg argv = Inl (Fatal msg, argv)"

definition throw_TypeError :: "argv \<Rightarrow> result" where
  "throw_TypeError argv = Inl (TypeError, argv)"

section \<open>The validators\<close>

text \<open>
  A validator takes the value of its parameter and the object \<open>argv\<close>, and
  either stops the process or returns with \<open>argv\<close> updated.
\<close>

type_synonym validator = "jsval \<Rightarrow> argv \<Rightarrow> result"

text \<open>The Mode Catalog as the array that \<open>argv\<close> receives.\<close>

definition modesList_val :: "env \<Rightarrow> jsval" where
  "modesList_val E = Arr (map Str (modesList E))"

text \<open>\<open>modesList.includes(mode)\<close>\<close>

definition known_mode :: "env \<Rightarrow> jsval \<Rightarrow> bool" where
  "known_mode E m = (m \<in> set (map Str (modesList E)))"

definition profile :: "env \<Rightarrow> validator" where
  "profile E value argv =
     (if \<not> truthy value then Inr argv
      else case value of
        Str s \<Rightarrow>
          (let profilePath = resolve E (cwd E) (untildify E s)
           in if \<not> existsSync E profilePath then die Profile_not_exists argv
              else if \<not> endsWith s ''.json'' \<and> \<not> isDirectory E profilePath
                then die (Profile_not_json value) argv
              else Inr (argv(''profile'' := Str profilePath)))
      | _ \<Rightarrow> throw_TypeError argv)"

definition mode :: "env \<Rightarrow> validator" where
  "mode E value argv =
     (if \<not> truthy value then Inr (argv(''mode'' := modesList_val E))
      else case value of
        Str s \<Rightarrow>
          (let list = split_on CHR '','' s
           in if ''all'' \<in> set list then Inr (argv(''mode'' := modesList_val E))
              else if list_ex (\<lambda>m. \<not> known_mode E (Str m)) list
                then die (Invalid_mode value) argv
              else Inr (argv(''mode'' := Arr (map Str list))))
      | _ \<Rightarrow> throw_TypeError argv)"

text \<open>
  \<open>value.includes('all')\<close> is the substring test on a string and the
  membership test on an array; a string has no method \<open>some\<close>.
\<close>

definition include_v :: "env \<Rightarrow> validator" where
  "include_v E value argv =
     (if \<not> truthy value then Inr argv
      else case value of
        Str s \<Rightarrow>
          if includes_str s ''all'' then Inr (argv(''include'' := modesList_val E))
          else throw_TypeError argv
      | Arr xs \<Rightarrow>
          if Str ''all'' \<in> set xs then Inr (argv(''include'' := modesList_val E))
          else if list_ex (\<lambda>m. \<not> known_mode E m) xs
            then die (Invalid_include value) argv
          else Inr argv
      | _ \<Rightarrow> throw_TypeError argv)"

definition quality :: "env \<Rightarrow> validator" where
  "quality E value argv =
     (if \<not> truthy value then Inr (argv(''quality'' := defaultParams_quality E))
      else let numeric = parseInt E value
           in if isNaN numeric then die Invalid_quality_number argv
              else if num_lt numeric 1 \<or> num_gt numeric 12
                then die (Invalid_quality_level value) argv
              else Inr (argv(''quality'' := Num numeric)))"

definition filter_v :: "env \<Rightarrow> validator" where
  "filter_v E value argv =
     (if truthy value \<and> value \<notin> set (map Str (generatorKeys E))
      then die (Unknown_filter value) argv
      else Inr argv)"

text \<open>The \<open>forEach\<close> over the sizes stops the process at the first bad one.\<close>

fun check_sizes :: "jsnum list \<Rightarrow> message option" where
  "check_sizes [] = None"
| "check_sizes (sz # sizes) =
     (if isNaN sz then Some Invalid_padding_not_numbers
      else if num_lt sz 0 then Some Invalid_padding_not_positive
      else check_sizes sizes)"

text \<open>\<open>Array.isArray(value) ? value : value.split(',')\<close>; \<open>None\<close> when the
  value is neither an array nor a string, and so has no method \<open>split\<close>.\<close>

fun padding_values :: "jsval \<Rightarrow> jsval list option" where
  "padding_values (Arr xs) = Some xs"
| "padding_values (Str s) = Some (map Str (split_on CHR '','' s))"
| "padding_values v = None"

definition padding :: "env \<Rightarrow> validator" where
  "padding E value argv =
     (if \<not> truthy value then Inr (argv(''padding'' := Arr [Num (Fin 0), Num (Fin 0)]))
      else case padding_values value of
        None \<Rightarrow> throw_TypeError argv
      | Some vals \<Rightarrow>
          (let sizes = map (parseInt E) vals
           in if 2 < length sizes then die Invalid_padding argv
              else case check_sizes sizes of
                Some msg \<Rightarrow> die msg argv
              | None \<Rightarrow>
                  Inr (argv(''padding'' :=
                    Arr (map Num (if length sizes = 1 then [sizes ! 0, sizes ! 0] else sizes))))))"

text \<open>\<open>None\<close> is the \<open>null\<close> that \<open>parseIconPath\<close> returns.\<close>

definition parseIconPath :: "env \<Rightarrow> string \<Rightarrow> string option" where
  "parseIconPath E value =
     (let path = untildify E value
      in if isAbsolute E path then (if existsSync E path then Some path else None)
         else let icon1 = resolve E (cwd E) path
              in if existsSync E icon1 then Some icon1
                 else let icon2 = resolve E (appDir E) path
                      in if existsSync E icon2 then Some icon2 else None)"

text \<open>
  \<open>icon\<close> and \<open>background\<close> assign the path first and check it afterwards.
  The warning that \<open>icon\<close> prints when it falls back to the sample goes to
  the logger and changes nothing here.
\<close>

definition icon :: "env \<Rightarrow> validator" where
  "icon E value argv =
     (if \<not> truthy value then Inr (argv(''icon'' := Str (sampleIcon E)))
      else case value of
        Str s \<Rightarrow>
          (case parseIconPath E s of
             None \<Rightarrow> die (Icon_not_exists value) (argv(''icon'' := Null))
           | Some p \<Rightarrow>
               (let argv1 = argv(''icon'' := Str p)
                in if \<not> truthy (argv1 ''icon'') then die (Icon_not_exists value) argv1
                   else let (width, height) = getPngSize E p
                        in if width = 0 \<and> height = 0 then die Icon_not_png argv1
                           else if width < 64 \<or> height < 64 then die Icon_too_small argv1
                           else Inr argv1))
      | _ \<Rightarrow> throw_TypeError argv)"

definition background :: "env \<Rightarrow> validator" where
  "background E value argv =
     (if \<not> truthy value then Inr argv
      else case value of
        Str s \<Rightarrow>
          (let p = resolve E (appDir E) (untildify E s);
               argv1 = argv(''background'' := Str p)
           in if \<not> existsSync E p then die (Background_not_exists value) argv1
              else let (width, height) = getPngSize E p
                   in if width = 0 \<and> height = 0 then die Background_not_png argv1
                      else if width < 128 \<or> height < 128 then die Background_too_small argv1
                      else Inr argv1)
      | _ \<Rightarrow> throw_TypeError argv)"

definition getColorParser :: "string \<Rightarrow> jsval \<Rightarrow> env \<Rightarrow> validator" where
  "getColorParser name defaultValue E value argv =
     (if \<not> truthy value
      then Inr (argv(name := js_or (argv ''themeColor'') defaultValue))
      else if (js_length value \<noteq> Some 3 \<and> js_length value \<noteq> Some 6)
              \<or> \<not> hex_test (toString E value)
        then die (Invalid_color name value) argv
      else Inr (argv(name := Str (CHR ''#'' # toString E value))))"

definition splashscreenIconRatio :: "env \<Rightarrow> validator" where
  "splashscreenIconRatio E value argv =
     (if \<not> truthy value \<and> value \<noteq> Num (Fin 0)
      then Inr (argv(''splashscreenIconRatio'' := defaultParams_splashscreenIconRatio E))
      else let numeric = parseFloat E value
           in if isNaN numeric then die Invalid_ratio_number argv
              else if num_lt numeric 0 \<or> num_gt numeric 100
                then die (Invalid_ratio value) argv
              else Inr (argv(''splashscreenIconRatio'' := Num numeric)))"

definition output_v :: "env \<Rightarrow> validator" where
  "output_v E value argv = (if \<not> truthy value then die Output_required argv else Inr argv)"

definition assets :: "env \<Rightarrow> validator" where
  "assets E value argv =
     (if \<not> truthy value then Inr (argv(''assets'' := Arr []))
      else case value of
        Str s \<Rightarrow>
          (let list = split_on CHR '','' s
           in if ''all'' \<in> set list then Inr (argv(''assets'' := modesList_val E))
              else if list_ex (\<lambda>m. \<not> known_mode E (Str m)) list
                then die (Invalid_assets value) argv
              else Inr (argv(''assets'' := Arr (map Str list))))
      | _ \<Rightarrow> throw_TypeError argv)"

section \<open>The registry and the driver\<close>

text \<open>
  The fifteen names that \<open>parsers\<close> defines. A name that the object
  \<open>parsers\<close> only inherits from its prototype is outside the model.
\<close>

definition parsers :: "env \<Rightarrow> string \<Rightarrow> validator option" where
  "parsers E = map_of
     [(''profile'', profile E),
      (''mode'', mode E),
      (''quality'', quality E),
      (''filter'', filter_v E),
      (''padding'', padding E),
      (''icon'', icon E),
      (''background'', background E),
      (''splashscreenIconRatio'', splashscreenIconRatio E),
      (''themeColor'', getColorParser ''themeColor'' Undefined E),
      (''pngColor'', getColorParser ''pngColor'' (defaultParams_pngColor E) E),
      (''splashscreenColor'',
         getColorParser ''splashscreenColor'' (defaultParams_splashscreenColor E) E),
      (''svgColor'', getColorParser ''svgColor'' (defaultParams_svgColor E) E),
      (''include'', include_v E),
      (''output'', output_v E),
      (''assets'', assets E)]"

text \<open>
  \<open>parseArgv\<close> runs the validators of the requested names in order, each on
  the value that \<open>argv\<close> holds under its name at that moment, and on \<open>argv\<close>
  itself.
\<close>

fun parseArgv :: "env \<Rightarrow> argv \<Rightarrow> string list \<Rightarrow> result" where
  "parseArgv E argv [] = Inr argv"
| "parseArgv E argv (name # list) =
     (case parsers E name of
        None \<Rightarrow> die (Invalid_parameter name) argv
      | Some fn \<Rightarrow>
          (case fn (argv name) argv of
             Inl stop \<Rightarrow> Inl stop
           | Inr argv' \<Rightarrow> parseArgv E argv' list))"

section \<open>Observing an outcome\<close>

text \<open>The message of a fatal stop, and the object as the run leaves it.\<close>

fun fatal_msg :: "result \<Rightarrow> message option" where
  "fatal_msg (Inl (Fatal msg, argv)) = Some msg"
| "fatal_msg (Inl (TypeError, argv)) = None"
| "fatal_msg (Inr argv) = None"

fun final :: "result \<Rightarrow> argv" where
  "final (Inl (e, argv)) = argv"
| "final (Inr argv) = argv"

text \<open>A list of entries written as one comma-separated string.\<close>

fun comma_join :: "string list \<Rightarrow> string" where
  "comma_join [] = []"
| "comma_join [e] = e"
| "comma_join (e # f # es) = e @ CHR '','' # comma_join (f # es)"

section \<open>An instance of the collaborators\<close>

text \<open>
  One concrete environment, on which the theorems below are instantiated:
  seven modes, a working directory and an application directory, and a file
  system with two PNG files and one file that is not a PNG. No input used
  below reaches \<open>Number_toString\<close>.
\<close>

definition sample_env :: env where
  "sample_env =
     \<lparr> modesList = [''spa'', ''pwa'', ''ssr'', ''bex'', ''cordova'', ''capacitor'', ''electron''],
       generatorKeys = [''png'', ''svg'', ''splashscreen''],
       defaultParams_quality = Num (Fin 5),
       defaultParams_pngColor = Str ''fff'',
       defaultParams_splashscreenColor = Str ''fff'',
       defaultParams_svgColor = Str ''1976D2'',
       defaultParams_splashscreenIconRatio = Num (Fin 40),
       appDir = ''/app'',
       cwd = ''/home/dev'',
       sampleIcon = ''/icongenie/samples/icongenie-icon.png'',
       existsSync = (\<lambda>p. p \<in> set [''/app/logo.png'', ''/app/bg.png'', ''/app/notes.txt'']),
       isDirectory = (\<lambda>p. False),
       getPngSize = (\<lambda>p. if p = ''/app/logo.png'' then (512, 512)
                          else if p = ''/app/bg.png'' then (1024, 768)
                          else (0, 0)),
       resolve = (\<lambda>base p. if starts_with p ''/'' then p else base @ ''/'' @ p),
       untildify = (\<lambda>p. p),
       isAbsolute = (\<lambda>p. starts_with p ''/''),
       Number_toString = (\<lambda>q. ''0.5'') \<rparr>"

definition no_args :: argv where
  "no_args = (\<lambda>name. Undefined)"

section \<open>The color validators\<close>

lemma parsers_themeColor:
  "parsers E ''themeColor'' = Some (getColorParser ''themeColor'' Undefined E)"
  by (simp add: parsers_def)

lemma parsers_pngColor:
  "parsers E ''pngColor'' = Some (getColorParser ''pngColor'' (defaultParams_pngColor E) E)"
  by (simp add: parsers_def)

lemma parsers_splashscreenColor:
  "parsers E ''splashscreenColor'' =
     Some (getColorParser ''splashscreenColor'' (defaultParams_splashscreenColor E) E)"
  by (simp add: parsers_def)

lemma parsers_svgColor:
  "parsers E ''svgColor'' = Some (getColorParser ''svgColor'' (defaultParams_svgColor E) E)"
  by (simp add: parsers_def)

lemmas parsers_color =
  parsers_themeColor parsers_pngColor parsers_splashscreenColor parsers_svgColor

lemma color_parser_cases:
  assumes "name \<in> {''themeColor'', ''pngColor'', ''splashscreenColor'', ''svgColor''}"
  obtains d where "parsers E name = Some (getColorParser name d E)"
  using assms parsers_color [of E] by auto

lemma getColorParser_empty:
  "\<not> truthy v \<Longrightarrow>
     getColorParser name d E v argv =
       Inr (argv(name := (if truthy (argv ''themeColor'') then argv ''themeColor'' else d)))"
  by (simp add: getColorParser_def js_or_def)

lemma comma_not_hex: "\<not> isHexDigit CHR '',''"
  by (simp add: isHexDigit_def)

lemma join_has_comma:
  assumes "2 \<le> length xs"
  shows "CHR '','' \<in> set (join E xs)"
proof (cases xs)
  case Nil
  with assms show ?thesis by simp
next
  case (Cons x ys)
  with assms show ?thesis by (cases ys) auto
qed

lemma hex_test_join: "2 \<le> length xs \<Longrightarrow> \<not> hex_test (join E xs)"
  using join_has_comma [of xs E] comma_not_hex
  by (auto simp: hex_test_def list_all_iff)

text \<open>Only a string passes the length test and the pattern together.\<close>

lemma color_check_iff:
  assumes "truthy v"
  shows "((js_length v = Some 3 \<or> js_length v = Some 6) \<and> hex_test (toString E v))
         = (\<exists>s. v = Str s \<and> (length s = 3 \<or> length s = 6) \<and> list_all isHexDigit s)"
proof (cases v)
  case (Str s)
  then show ?thesis by (auto simp: hex_test_def)
next
  case (Arr xs)
  then show ?thesis using hex_test_join [of xs E] by auto
qed (use assms in auto)

lemma getColorParser_accept:
  assumes "length s = 3 \<or> length s = 6" and "list_all isHexDigit s"
  shows "getColorParser name d E (Str s) argv = Inr (argv(name := Str (CHR ''#'' # s)))"
  using assms by (auto simp: getColorParser_def hex_test_def)

lemma getColorParser_reject:
  assumes "truthy v"
    and "\<not> (\<exists>s. v = Str s \<and> (length s = 3 \<or> length s = 6) \<and> list_all isHexDigit s)"
  shows "getColorParser name d E v argv = die (Invalid_color name v) argv"
  using assms color_check_iff [OF assms(1), of E]
  by (simp add: getColorParser_def) blast

text \<open>
  C4. For each of the four color fields, an empty value stores what the
  object holds under \<open>themeColor\<close> when that is not empty, and the default
  of the field otherwise. The field \<open>themeColor\<close> is registered without a
  default, so its default is \<open>undefined\<close>.
\<close>

theorem color_empty_fallback:
  assumes "(name, d) \<in> {(''themeColor'', Undefined),
                        (''pngColor'', defaultParams_pngColor E),
                        (''splashscreenColor'', defaultParams_splashscreenColor E),
                        (''svgColor'', defaultParams_svgColor E)}"
    and "\<not> truthy v"
  shows "\<exists>fn. parsers E name = Some fn \<and>
           fn v argv =
             Inr (argv(name := (if truthy (argv ''themeColor'') then argv ''themeColor'' else d)))"
  using assms parsers_color [of E] by (auto simp: getColorParser_empty)

theorem color_empty_fallback_witness:
  "(\<exists>fn. parsers sample_env ''svgColor'' = Some fn \<and>
      fn Undefined (no_args(''themeColor'' := Str ''#abc'')) =
        Inr ((no_args(''themeColor'' := Str ''#abc''))(''svgColor'' := Str ''#abc'')))
   \<and> (\<exists>fn. parsers sample_env ''svgColor'' = Some fn \<and>
      fn (Str []) no_args = Inr (no_args(''svgColor'' := Str ''1976D2'')))"
  using color_empty_fallback [of "''svgColor''" "Str ''1976D2''" sample_env Undefined
          "no_args(''themeColor'' := Str ''#abc'')"]
        color_empty_fallback [of "''svgColor''" "Str ''1976D2''" sample_env "Str []" no_args]
  by (simp add: sample_env_def no_args_def)

text \<open>
  C7. A value that is not empty passes a color validator exactly when it is a
  string of 3 or 6 characters, each of them a hexadecimal digit of either
  case; it is then stored behind a \<open>#\<close>. Every other value, of any type, is
  fatal.
\<close>

theorem color_nonempty:
  assumes "name \<in> {''themeColor'', ''pngColor'', ''splashscreenColor'', ''svgColor''}"
    and "parsers E name = Some fn"
    and "truthy v"
  shows "(\<forall>s. v = Str s \<and> (length s = 3 \<or> length s = 6) \<and> list_all isHexDigit s \<longrightarrow>
            fn v argv = Inr (argv(name := Str (CHR ''#'' # s))))
       \<and> (\<not> (\<exists>s. v = Str s \<and> (length s = 3 \<or> length s = 6) \<and> list_all isHexDigit s) \<longrightarrow>
            fn v argv = die (Invalid_color name v) argv)"
proof -
  obtain d where "parsers E name = Some (getColorParser name d E)"
    using assms(1) by (rule color_parser_cases)
  with assms(2) have fn: "fn = getColorParser name d E" by simp
  show ?thesis
    unfolding fn using assms(3) getColorParser_accept getColorParser_reject by blast
qed

theorem color_nonempty_witness:
  "the (parsers sample_env ''pngColor'') (Str ''fff'') no_args
     = Inr (no_args(''pngColor'' := Str ''#fff''))
   \<and> the (parsers sample_env ''pngColor'') (Str ''ffffff'') no_args
     = Inr (no_args(''pngColor'' := Str ''#ffffff''))
   \<and> the (parsers sample_env ''pngColor'') (Str ''1976D2'') no_args
     = Inr (no_args(''pngColor'' := Str ''#1976D2''))
   \<and> the (parsers sample_env ''pngColor'') (Str ''ff'') no_args
     = die (Invalid_color ''pngColor'' (Str ''ff'')) no_args
   \<and> the (parsers sample_env ''pngColor'') (Str ''gggggg'') no_args
     = die (Invalid_color ''pngColor'' (Str ''gggggg'')) no_args
   \<and> the (parsers sample_env ''pngColor'') (Arr [Str ''f'', Str ''f'', Str ''f'']) no_args
     = die (Invalid_color ''pngColor'' (Arr [Str ''f'', Str ''f'', Str ''f''])) no_args"
  using
    color_nonempty [of "''pngColor''" sample_env "the (parsers sample_env ''pngColor'')"
      "Str ''fff''" no_args]
    color_nonempty [of "''pngColor''" sample_env "the (parsers sample_env ''pngColor'')"
      "Str ''ffffff''" no_args]
    color_nonempty [of "''pngColor''" sample_env "the (parsers sample_env ''pngColor'')"
      "Str ''1976D2''" no_args]
    color_nonempty [of "''pngColor''" sample_env "the (parsers sample_env ''pngColor'')"
      "Str ''ff''" no_args]
    color_nonempty [of "''pngColor''" sample_env "the (parsers sample_env ''pngColor'')"
      "Str ''gggggg''" no_args]
    color_nonempty [of "''pngColor''" sample_env "the (parsers sample_env ''pngColor'')"
      "Arr [Str ''f'', Str ''f'', Str ''f'']" no_args]
  by (simp add: parsers_pngColor isHexDigit_def)

lemma parseArgv_single:
  "parsers E name = Some fn \<Longrightarrow>
     parseArgv E argv [name] = (case fn (argv name) argv of Inl stop \<Rightarrow> Inl stop | Inr a \<Rightarrow> Inr a)"
  by (simp split: sum.splits)

text \<open>
  C8. Validation of a color is not idempotent. When the object holds a string
  \<open>v\<close> of 3 or 6 hexadecimal digits under a color field, validating the field
  stores \<open>#v\<close>; validating the field again on that object is fatal, since
  \<open>#v\<close> has 4 or 7 characters.
\<close>

theorem color_not_idempotent:
  assumes "name \<in> {''themeColor'', ''pngColor'', ''splashscreenColor'', ''svgColor''}"
    and "argv name = Str v"
    and "length v = 3 \<or> length v = 6"
    and "list_all isHexDigit v"
  shows "parseArgv E argv [name] = Inr (argv(name := Str (CHR ''#'' # v)))
       \<and> parseArgv E (argv(name := Str (CHR ''#'' # v))) [name]
           = die (Invalid_color name (Str (CHR ''#'' # v))) (argv(name := Str (CHR ''#'' # v)))"
proof -
  obtain d where p: "parsers E name = Some (getColorParser name d E)"
    using assms(1) by (rule color_parser_cases)
  have first: "getColorParser name d E (Str v) argv = Inr (argv(name := Str (CHR ''#'' # v)))"
    using assms(3,4) by (rule getColorParser_accept)
  have "\<not> (\<exists>s. Str (CHR ''#'' # v) = Str s \<and> (length s = 3 \<or> length s = 6)
               \<and> list_all isHexDigit s)"
    using assms(3) by auto
  then have second:
    "getColorParser name d E (Str (CHR ''#'' # v)) (argv(name := Str (CHR ''#'' # v)))
       = die (Invalid_color name (Str (CHR ''#'' # v))) (argv(name := Str (CHR ''#'' # v)))"
    by (intro getColorParser_reject) simp_all
  show ?thesis
    using first second assms(2)
    by (simp add: parseArgv_single [OF p] die_def del: parseArgv.simps)
qed

theorem color_not_idempotent_witness:
  "parseArgv sample_env (no_args(''themeColor'' := Str ''fff'')) [''themeColor'']
     = Inr ((no_args(''themeColor'' := Str ''fff''))(''themeColor'' := Str ''#fff''))
   \<and> parseArgv sample_env
        ((no_args(''themeColor'' := Str ''fff''))(''themeColor'' := Str ''#fff'')) [''themeColor'']
     = die (Invalid_color ''themeColor'' (Str ''#fff''))
         ((no_args(''themeColor'' := Str ''fff''))(''themeColor'' := Str ''#fff''))"
  using color_not_idempotent [of "''themeColor''" "no_args(''themeColor'' := Str ''fff'')"
          "''fff''" sample_env]
  by (simp add: isHexDigit_def)

text \<open>
  C10, as stated, fails: the value stored for an empty color field is not
  always a copy of the \<open>themeColor\<close> entry. With no \<open>themeColor\<close> in the object,
  \<open>pngColor\<close> receives its default.
\<close>

theorem color_copy_counterexample:
  "\<not> truthy (no_args ''pngColor'')
   \<and> final (parseArgv sample_env no_args [''pngColor'']) ''pngColor'' = Str ''fff''
   \<and> final (parseArgv sample_env no_args [''pngColor'']) ''pngColor'' \<noteq> no_args ''themeColor''"
  unfolding parseArgv_single [OF parsers_pngColor]
  by (simp add: getColorParser_empty no_args_def sample_env_def)

text \<open>
  C10, amended. \<open>parseArgv\<close> hands the object itself to the validator. When a
  color field other than \<open>themeColor\<close> is validated with an empty value and the
  \<open>themeColor\<close> entry of the object is not empty, the field receives that entry
  unchanged, whatever it is: no length or digit check, no \<open>#\<close>. When the
  \<open>themeColor\<close> entry is empty, the field receives its default.
\<close>

theorem color_empty_copies_themeColor:
  assumes "(name, d) \<in> {(''pngColor'', defaultParams_pngColor E),
                        (''splashscreenColor'', defaultParams_splashscreenColor E),
                        (''svgColor'', defaultParams_svgColor E)}"
    and "\<not> truthy (argv name)"
  shows "(truthy (argv ''themeColor'') \<longrightarrow>
            parseArgv E argv [name] = Inr (argv(name := argv ''themeColor'')))
       \<and> (\<not> truthy (argv ''themeColor'') \<longrightarrow>
            parseArgv E argv [name] = Inr (argv(name := d)))"
proof -
  from assms(1) have p: "parsers E name = Some (getColorParser name d E)"
    using parsers_color [of E] by auto
  show ?thesis
    using assms(2)
    by (simp add: parseArgv_single [OF p] getColorParser_empty del: parseArgv.simps)
qed

text \<open>
  The copied value need not be a color: here \<open>themeColor\<close> holds the raw input
  \<open>zzz\<close>. Run alone, \<open>pngColor\<close> stores it; run before \<open>themeColor\<close>, it has
  stored it when \<open>themeColor\<close> stops the process.
\<close>

theorem color_empty_copies_themeColor_witness:
  "parseArgv sample_env (no_args(''themeColor'' := Str ''zzz'')) [''pngColor'']
     = Inr ((no_args(''themeColor'' := Str ''zzz''))(''pngColor'' := Str ''zzz''))
   \<and> parseArgv sample_env (no_args(''themeColor'' := Str [])) [''pngColor'']
     = Inr ((no_args(''themeColor'' := Str []))(''pngColor'' := Str ''fff''))"
  using color_empty_copies_themeColor [of "''pngColor''" "Str ''fff''" sample_env
          "no_args(''themeColor'' := Str ''zzz'')"]
        color_empty_copies_themeColor [of "''pngColor''" "Str ''fff''" sample_env
          "no_args(''themeColor'' := Str [])"]
  by (simp add: sample_env_def no_args_def)

section \<open>Lists of modes\<close>

lemma split_on_no_sep: "c \<notin> set e \<Longrightarrow> split_on c e = [e]"
  by (induction e) auto

lemma split_on_sep: "c \<notin> set e \<Longrightarrow> split_on c (e @ c # r) = e # split_on c r"
  by (induction e) auto

text \<open>Splitting at the commas gives back the entries of a comma-separated list.\<close>

lemma split_on_comma_join:
  "es \<noteq> [] \<Longrightarrow> \<forall>e\<in>set es. CHR '','' \<notin> set e \<Longrightarrow> split_on CHR '','' (comma_join es) = es"
  by (induction es rule: comma_join.induct) (auto simp: split_on_no_sep split_on_sep)

lemma known_mode_Str: "known_mode E (Str m) = (m \<in> set (modesList E))"
  by (auto simp: known_mode_def)

lemma mode_all:
  "s \<noteq> [] \<Longrightarrow> ''all'' \<in> set (split_on CHR '','' s) \<Longrightarrow>
     mode E (Str s) argv = Inr (argv(''mode'' := modesList_val E))"
  by (simp add: mode_def)

lemma mode_unknown:
  "s \<noteq> [] \<Longrightarrow> ''all'' \<notin> set (split_on CHR '','' s) \<Longrightarrow>
   \<exists>m\<in>set (split_on CHR '','' s). m \<notin> set (modesList E) \<Longrightarrow>
     mode E (Str s) argv = die (Invalid_mode (Str s)) argv"
  by (auto simp: mode_def known_mode_Str list_ex_iff Let_def)

lemma assets_all:
  "s \<noteq> [] \<Longrightarrow> ''all'' \<in> set (split_on CHR '','' s) \<Longrightarrow>
     assets E (Str s) argv = Inr (argv(''assets'' := modesList_val E))"
  by (simp add: assets_def)

lemma assets_unknown:
  "s \<noteq> [] \<Longrightarrow> ''all'' \<notin> set (split_on CHR '','' s) \<Longrightarrow>
   \<exists>m\<in>set (split_on CHR '','' s). m \<notin> set (modesList E) \<Longrightarrow>
     assets E (Str s) argv = die (Invalid_assets (Str s)) argv"
  by (auto simp: assets_def known_mode_Str list_ex_iff Let_def)

text \<open>
  C2, as stated, fails: a list with an entry that is not a known mode is not
  always fatal. In \<open>bogus,all\<close> the entry \<open>bogus\<close> is unknown, and \<open>mode\<close>
  returns with the full catalog.
\<close>

theorem mode_unknown_counterexample:
  "''bogus'' \<in> set (split_on CHR '','' ''bogus,all'')
   \<and> ''bogus'' \<notin> set (modesList sample_env)
   \<and> fatal_msg (mode sample_env (Str ''bogus,all'') no_args) = None
   \<and> mode sample_env (Str ''bogus,all'') no_args
       = Inr (no_args(''mode'' := modesList_val sample_env))"
  by (simp add: mode_def sample_env_def)

text \<open>
  C2, amended. For \<open>mode\<close> and \<open>assets\<close> and every comma-separated list that is
  not the empty string: when the list has the entry \<open>all\<close>, the full Mode
  Catalog is stored, whatever the other entries; when it has no entry \<open>all\<close>
  and some entry, anywhere, is not a known mode, validation is fatal.
\<close>

theorem mode_assets_lists:
  assumes "es \<noteq> []" and "\<forall>e\<in>set es. CHR '','' \<notin> set e" and "comma_join es \<noteq> []"
  shows "(''all'' \<in> set es \<longrightarrow>
            mode E (Str (comma_join es)) argv = Inr (argv(''mode'' := modesList_val E))
          \<and> assets E (Str (comma_join es)) argv = Inr (argv(''assets'' := modesList_val E)))
       \<and> (''all'' \<notin> set es \<and> (\<exists>m\<in>set es. m \<notin> set (modesList E)) \<longrightarrow>
            mode E (Str (comma_join es)) argv = die (Invalid_mode (Str (comma_join es))) argv
          \<and> assets E (Str (comma_join es)) argv
              = die (Invalid_assets (Str (comma_join es))) argv)"
  using assms(3) split_on_comma_join [OF assms(1,2)]
    mode_all [of "comma_join es" E argv] mode_unknown [of "comma_join es" E argv]
    assets_all [of "comma_join es" E argv] assets_unknown [of "comma_join es" E argv]
  by simp

theorem mode_assets_lists_witness:
  "mode sample_env (Str ''pwa,all,bogus'') no_args
     = Inr (no_args(''mode'' := modesList_val sample_env))
   \<and> assets sample_env (Str ''pwa,all,bogus'') no_args
     = Inr (no_args(''assets'' := modesList_val sample_env))
   \<and> mode sample_env (Str ''spa,pwa,bogus'') no_args
     = die (Invalid_mode (Str ''spa,pwa,bogus'')) no_args
   \<and> assets sample_env (Str ''spa,pwa,bogus'') no_args
     = die (Invalid_assets (Str ''spa,pwa,bogus'')) no_args"
  using mode_assets_lists [of "[''pwa'', ''all'', ''bogus'']" sample_env no_args]
    mode_assets_lists [of "[''spa'', ''pwa'', ''bogus'']" sample_env no_args]
  by (simp add: sample_env_def)

section \<open>The include validator\<close>

lemma include_returns:
  assumes "include_v E v argv = Inr a"
  shows "a = argv \<or> a = argv(''include'' := modesList_val E)"
  using assms
  by (auto simp: include_v_def throw_TypeError_def die_def split: if_splits jsval.splits)

text \<open>
  C3, as stated, fails: \<open>include\<close> does assign. On the array \<open>[all]\<close> the
  \<open>include\<close> entry of the object becomes the Mode Catalog.
\<close>

theorem include_assigns_counterexample:
  "(no_args(''include'' := Arr [Str ''all''])) ''include'' = Arr [Str ''all'']
   \<and> final (parseArgv sample_env (no_args(''include'' := Arr [Str ''all''])) [''include''])
        ''include''
       = Arr [Str ''spa'', Str ''pwa'', Str ''ssr'', Str ''bex'', Str ''cordova'',
              Str ''capacitor'', Str ''electron'']
   \<and> final (parseArgv sample_env (no_args(''include'' := Arr [Str ''all''])) [''include''])
        ''include''
       \<noteq> (no_args(''include'' := Arr [Str ''all''])) ''include''"
  by (simp add: parsers_def include_v_def modesList_val_def sample_env_def)

text \<open>
  C3, amended. \<open>include\<close> leaves the object as it is, except on a list with
  the entry \<open>all\<close>, where it stores the full Mode Catalog as the \<open>include\<close>
  entry. On a list without \<open>all\<close> it checks every entry against the catalog:
  fatal on an unknown entry, and otherwise nothing is stored, the list staying
  in the object as it came. Whenever \<open>include\<close> returns, the object is
  unchanged or differs by that one assignment.
\<close>

theorem include_effect:
  "(\<not> truthy v \<longrightarrow> include_v E v argv = Inr argv)
   \<and> (\<forall>xs. v = Arr xs \<and> Str ''all'' \<in> set xs \<longrightarrow>
         include_v E v argv = Inr (argv(''include'' := modesList_val E)))
   \<and> (\<forall>xs. v = Arr xs \<and> Str ''all'' \<notin> set xs \<and> (\<exists>m\<in>set xs. \<not> known_mode E m) \<longrightarrow>
         include_v E v argv = die (Invalid_include v) argv)
   \<and> (\<forall>xs. v = Arr xs \<and> Str ''all'' \<notin> set xs \<and> (\<forall>m\<in>set xs. known_mode E m) \<longrightarrow>
         include_v E v argv = Inr argv)
   \<and> (\<forall>a. include_v E v argv = Inr a \<longrightarrow>
         a = argv \<or> a = argv(''include'' := modesList_val E))"
  using include_returns [of E v argv]
  by (auto simp: include_v_def list_ex_iff)

theorem include_effect_witness:
  "include_v sample_env (Arr [Str ''pwa'', Str ''all'']) no_args
     = Inr (no_args(''include'' := modesList_val sample_env))
   \<and> include_v sample_env (Arr [Str ''pwa'', Str ''bogus'']) no_args
     = die (Invalid_include (Arr [Str ''pwa'', Str ''bogus''])) no_args
   \<and> include_v sample_env (Arr [Str ''pwa'', Str ''spa'']) no_args = Inr no_args"
  using include_effect [of "Arr [Str ''pwa'', Str ''all'']" sample_env no_args]
    include_effect [of "Arr [Str ''pwa'', Str ''bogus'']" sample_env no_args]
    include_effect [of "Arr [Str ''pwa'', Str ''spa'']" sample_env no_args]
  by (simp add: known_mode_def sample_env_def)

section \<open>What a stopped validator leaves in the object\<close>

lemmas stop_defs = die_def throw_TypeError_def Let_def

lemma profile_stop: "profile E v argv = Inl (e, a) \<Longrightarrow> a = argv"
  by (auto simp: profile_def stop_defs split: if_splits jsval.splits)

lemma mode_stop: "mode E v argv = Inl (e, a) \<Longrightarrow> a = argv"
  by (auto simp: mode_def stop_defs split: if_splits jsval.splits)

lemma include_stop: "include_v E v argv = Inl (e, a) \<Longrightarrow> a = argv"
  by (auto simp: include_v_def stop_defs split: if_splits jsval.splits)

lemma quality_stop: "quality E v argv = Inl (e, a) \<Longrightarrow> a = argv"
  by (auto simp: quality_def stop_defs split: if_splits)

lemma filter_stop: "filter_v E v argv = Inl (e, a) \<Longrightarrow> a = argv"
  by (auto simp: filter_v_def stop_defs split: if_splits)

lemma padding_stop: "padding E v argv = Inl (e, a) \<Longrightarrow> a = argv"
  by (auto simp: padding_def stop_defs split: if_splits option.splits)

lemma color_stop: "getColorParser name d E v argv = Inl (e, a) \<Longrightarrow> a = argv"
  by (auto simp: getColorParser_def stop_defs split: if_splits)

lemma ratio_stop: "splashscreenIconRatio E v argv = Inl (e, a) \<Longrightarrow> a = argv"
  by (auto simp: splashscreenIconRatio_def stop_defs split: if_splits)

lemma output_stop: "output_v E v argv = Inl (e, a) \<Longrightarrow> a = argv"
  by (auto simp: output_v_def stop_defs split: if_splits)

lemma assets_stop: "assets E v argv = Inl (e, a) \<Longrightarrow> a = argv"
  by (auto simp: assets_def stop_defs split: if_splits jsval.splits)

lemma icon_returns:
  assumes "icon E v argv = Inr a"
  shows "(\<not> truthy v \<and> a = argv(''icon'' := Str (sampleIcon E)))
       \<or> (\<exists>p. a = argv(''icon'' := Str p) \<and> existsSync E p
              \<and> 64 \<le> fst (getPngSize E p) \<and> 64 \<le> snd (getPngSize E p))"
proof (cases "truthy v")
  case False
  with assms show ?thesis by (simp add: icon_def)
next
  case True
  with assms obtain s where v: "v = Str s"
    by (auto simp: icon_def stop_defs split: jsval.splits)
  from assms True v obtain p where p: "parseIconPath E s = Some p"
    by (auto simp: icon_def stop_defs split: option.splits)
  then have ex: "existsSync E p"
    by (auto simp: parseIconPath_def Let_def split: if_splits)
  from assms True v p have "a = argv(''icon'' := Str p) \<and> 64 \<le> fst (getPngSize E p) \<and> 64 \<le> snd (getPngSize E p)"
    by (auto simp: icon_def stop_defs split: if_splits prod.splits)
  with ex show ?thesis by blast
qed

lemma icon_stop:
  assumes "icon E v argv = Inl (e, a)"
  shows "\<forall>k. k \<noteq> ''icon'' \<longrightarrow> a k = argv k"
  using assms
  by (auto simp: icon_def stop_defs split: if_splits jsval.splits option.splits prod.splits)

lemma background_returns:
  assumes "background E v argv = Inr a"
  shows "(\<not> truthy v \<and> a = argv)
       \<or> (\<exists>p. a = argv(''background'' := Str p) \<and> existsSync E p
              \<and> 128 \<le> fst (getPngSize E p) \<and> 128 \<le> snd (getPngSize E p))"
  using assms
  by (auto simp: background_def stop_defs split: if_splits jsval.splits prod.splits)

lemma background_stop:
  assumes "background E v argv = Inl (e, a)"
  shows "\<forall>k. k \<noteq> ''background'' \<longrightarrow> a k = argv k"
  using assms
  by (auto simp: background_def stop_defs split: if_splits jsval.splits prod.splits)

lemma registered_stop:
  assumes "parsers E name = Some fn" and "name \<noteq> ''icon''" and "name \<noteq> ''background''"
    and "fn v argv = Inl (e, a)"
  shows "a = argv"
  using assms
  by (auto simp: parsers_def split: if_splits
      dest: profile_stop mode_stop include_stop quality_stop filter_stop padding_stop
        color_stop ratio_stop output_stop assets_stop)

text \<open>
  C1, as stated, fails for \<open>icon\<close> and \<open>background\<close>: they assign the path and
  check it afterwards. Here \<open>missing.png\<close> resolves to a path that does not
  exist, and \<open>notes.txt\<close> to a file that is not a PNG; the process stops with
  the resolved path stored in place of the raw value.
\<close>

theorem stored_before_checked_counterexample:
  "fatal_msg (parseArgv sample_env (no_args(''background'' := Str ''missing.png''))
       [''background''])
     = Some (Background_not_exists (Str ''missing.png''))
   \<and> final (parseArgv sample_env (no_args(''background'' := Str ''missing.png''))
       [''background'']) ''background''
     = Str ''/app/missing.png''
   \<and> \<not> existsSync sample_env ''/app/missing.png''
   \<and> fatal_msg (parseArgv sample_env (no_args(''icon'' := Str ''notes.txt'')) [''icon''])
     = Some Icon_not_png
   \<and> final (parseArgv sample_env (no_args(''icon'' := Str ''notes.txt'')) [''icon'']) ''icon''
     = Str ''/app/notes.txt''
   \<and> getPngSize sample_env ''/app/notes.txt'' = (0, 0)"
  by (simp add: parsers_def background_def icon_def parseIconPath_def die_def sample_env_def
        no_args_def)

text \<open>
  C1, amended. For every registered validator other than \<open>icon\<close> and
  \<open>background\<close>, a run that stops has stored nothing: the object is as it
  was. \<open>icon\<close> and \<open>background\<close> assign the path before they check it, so a
  run of theirs that stops may have changed their own entry, and nothing else;
  when they return, the path they stored exists and has the minimum size (or
  the value was empty: \<open>icon\<close> stored the sample, \<open>background\<close> nothing).
\<close>

theorem stored_after_checked:
  "(parsers E name = Some fn \<and> name \<noteq> ''icon'' \<and> name \<noteq> ''background''
      \<and> fn v argv = Inl (e, a) \<longrightarrow> a = argv)
   \<and> (icon E v argv = Inl (e, a) \<longrightarrow> (\<forall>k. k \<noteq> ''icon'' \<longrightarrow> a k = argv k))
   \<and> (background E v argv = Inl (e, a) \<longrightarrow> (\<forall>k. k \<noteq> ''background'' \<longrightarrow> a k = argv k))
   \<and> (icon E v argv = Inr a \<longrightarrow>
        (\<not> truthy v \<and> a = argv(''icon'' := Str (sampleIcon E)))
        \<or> (\<exists>p. a = argv(''icon'' := Str p) \<and> existsSync E p
               \<and> 64 \<le> fst (getPngSize E p) \<and> 64 \<le> snd (getPngSize E p)))
   \<and> (background E v argv = Inr a \<longrightarrow>
        (\<not> truthy v \<and> a = argv)
        \<or> (\<exists>p. a = argv(''background'' := Str p) \<and> existsSync E p
               \<and> 128 \<le> fst (getPngSize E p) \<and> 128 \<le> snd (getPngSize E p)))"
  using registered_stop [of E name fn v argv e a] icon_stop [of E v argv e a]
    background_stop [of E v argv e a] icon_returns [of E v argv a]
    background_returns [of E v argv a]
  by blast

theorem stored_after_checked_witness:
  "parsers sample_env ''mode'' = Some (mode sample_env)
   \<and> mode sample_env (Str ''spa,bogus'') (no_args(''mode'' := Str ''spa,bogus''))
       = Inl (Fatal (Invalid_mode (Str ''spa,bogus'')), no_args(''mode'' := Str ''spa,bogus''))
   \<and> icon sample_env (Str ''logo.png'') no_args = Inr (no_args(''icon'' := Str ''/app/logo.png''))
   \<and> existsSync sample_env ''/app/logo.png''
   \<and> background sample_env (Str ''bg.png'') no_args
       = Inr (no_args(''background'' := Str ''/app/bg.png''))
   \<and> existsSync sample_env ''/app/bg.png''"
  using stored_after_checked [of sample_env "''mode''" "mode sample_env" "Str ''spa,bogus''"
      "no_args(''mode'' := Str ''spa,bogus'')" "Fatal (Invalid_mode (Str ''spa,bogus''))"
      "no_args(''mode'' := Str ''spa,bogus'')"]
    stored_after_checked [of sample_env "''icon''" "icon sample_env" "Str ''logo.png''" no_args
      TypeError "no_args(''icon'' := Str ''/app/logo.png'')"]
    stored_after_checked [of sample_env "''background''" "background sample_env" "Str ''bg.png''"
      no_args TypeError "no_args(''background'' := Str ''/app/bg.png'')"]
  by (simp add: parsers_def mode_def known_mode_Str icon_def parseIconPath_def background_def
        die_def sample_env_def)

section \<open>Parsing numbers\<close>

text \<open>Rounding is exact on the integers up to \<open>2 ^ 53\<close> and keeps every
  other integer at least half as far from zero.\<close>

lemma pow2_pos: "0 < pow2 e"
  by (simp add: pow2_def)

lemma pow2_powi: "pow2 e = 2 powi e"
  by (simp add: pow2_def power_int_def inverse_eq_divide power_one_over)

lemma pow2_mono: "d \<le> e \<Longrightarrow> pow2 d \<le> pow2 e"
  by (simp add: pow2_powi power_int_increasing)

lemma bitlen_1: "bitlen 1 = 1"
  by (simp add: bitlen_alt_def)

lemma roundHalfEven_of_int: "roundHalfEven (of_int m) = m"
  by (simp add: roundHalfEven_def)

lemma roundHalfEven_ge: "x - 1 / 2 \<le> of_int (roundHalfEven x)"
  unfolding roundHalfEven_def Let_def
  by (auto simp: not_less) linarith+

lemma bitlen_pos: "0 < n \<Longrightarrow> 1 \<le> bitlen n"
  using bitlen_eq_zero_iff [of n] bitlen_nonneg [of n] by linarith

lemma ilog2_of_int:
  assumes "0 < n"
  shows "ilog2 (of_int n) = bitlen n - 1"
proof -
  have "1 \<le> bitlen n" using assms by (rule bitlen_pos)
  moreover have "(2::int) ^ nat (bitlen n - 1) \<le> n"
    using bitlen_bounds [OF assms] by simp
  then have "(of_int ((2::int) ^ nat (bitlen n - 1)) :: rat) \<le> of_int n"
    by (simp only: of_int_le_iff)
  ultimately show ?thesis
    by (simp add: ilog2_def pow2_def bitlen_1)
qed

lemma toNumber_pos_int_lower:
  assumes "0 < n"
  shows "toNumber (of_int n) = PInf \<or> (\<exists>r. toNumber (of_int n) = Fin r \<and> of_int n / 2 \<le> r)"
proof -
  define a :: rat where "a = of_int n"
  define e where "e = max (ilog2 a) (- 1022)"
  define ulp where "ulp = pow2 (e - 52)"
  define r where "r = of_int (roundHalfEven (a / ulp)) * ulp"
  have a: "0 < a" "\<bar>a\<bar> = a" "a \<noteq> 0" "\<not> a < 0" using assms by (simp_all add: a_def)
  have e: "e = bitlen n - 1"
    using ilog2_of_int [OF assms] bitlen_pos [OF assms] by (simp add: e_def a_def)
  have "pow2 (bitlen n - 1) \<le> a"
    using bitlen_bounds [OF assms] bitlen_pos [OF assms]
    by (simp add: pow2_def a_def)
  moreover have "ulp \<le> pow2 (bitlen n - 1)"
    unfolding ulp_def e by (rule pow2_mono) simp
  ultimately have ulp: "ulp \<le> a" "0 < ulp" by (simp_all add: ulp_def pow2_pos)
  have "a / ulp - 1 / 2 \<le> of_int (roundHalfEven (a / ulp))" by (rule roundHalfEven_ge)
  then have "(a / ulp - 1 / 2) * ulp \<le> r"
    unfolding r_def using ulp(2) by (simp only: mult_le_cancel_right_pos)
  moreover have "(a / ulp - 1 / 2) * ulp = a - ulp / 2"
    using ulp(2) by (simp add: left_diff_distrib)
  ultimately have "a - ulp / 2 \<le> r" by simp
  then have r: "a / 2 \<le> r" using ulp(1) by simp
  have "toNumber a = (if 2 ^ 1024 \<le> r then PInf else Fin r)"
    using a by (simp add: toNumber_def Let_def e_def [symmetric] ulp_def [symmetric] r_def [symmetric])
  with r show ?thesis unfolding a_def by auto
qed

lemma toNumber_uminus:
  "toNumber (- q) = (case toNumber q of Fin r \<Rightarrow> Fin (- r) | PInf \<Rightarrow> NInf | NInf \<Rightarrow> PInf | NaN \<Rightarrow> NaN)"
  by (cases "q = 0"; cases "q < 0") (auto simp: toNumber_def Let_def)

lemma pow2_nonpos: "e \<le> 0 \<Longrightarrow> pow2 e = 1 / 2 ^ nat (- e)"
  by (auto simp: pow2_def)

lemma toNumber_2_53: "toNumber 9007199254740992 = Fin 9007199254740992"
  by code_simp

lemma toNumber_pos_int_exact:
  assumes "0 < n" and "n \<le> 2 ^ 53"
  shows "toNumber (of_int n) = Fin (of_int n)"
proof (cases "n = 2 ^ 53")
  case True
  then show ?thesis using toNumber_2_53 by simp
next
  case False
  with assms have lt: "n < 2 ^ 53" by simp
  define a :: rat where "a = of_int n"
  define e where "e = bitlen n - 1"
  define k where "k = nat (52 - e)"
  have a: "0 < a" "\<bar>a\<bar> = a" "a \<noteq> 0" "\<not> a < 0" using assms by (simp_all add: a_def)
  have e0: "0 \<le> e" using bitlen_pos [OF assms(1)] by (simp add: e_def)
  have "(2::int) ^ nat e \<le> n" using bitlen_bounds [OF assms(1)] by (simp add: e_def)
  with lt have "(2::int) ^ nat e < 2 ^ 53" by simp
  then have "nat e < 53" by (simp only: power_strict_increasing_iff) 
  with e0 have e52: "e \<le> 52" by simp
  have il: "max (ilog2 a) (- 1022) = e"
    using ilog2_of_int [OF assms(1)] e0 by (simp add: a_def e_def)
  have ulp: "pow2 (e - 52) = 1 / 2 ^ k"
    using e52 by (simp add: pow2_nonpos k_def)
  have "a / pow2 (e - 52) = of_int (n * 2 ^ k)"
    by (simp add: ulp a_def)
  then have rnd: "roundHalfEven (a / pow2 (e - 52)) = n * 2 ^ k"
    by (simp only: roundHalfEven_of_int)
  have r: "of_int (roundHalfEven (a / pow2 (e - 52))) * pow2 (e - 52) = a"
    unfolding rnd by (simp add: ulp a_def)
  have "a < 2 ^ 53" using lt unfolding a_def
    by (metis of_int_less_iff of_int_numeral of_int_power)
  then have "a < 2 ^ 1024" by (rule less_trans) simp
  then show ?thesis
    using a by (simp add: toNumber_def Let_def il r a_def [symmetric])
qed

lemma toNumber_int_exact:
  assumes "\<bar>n\<bar> \<le> 2 ^ 53"
  shows "toNumber (of_int n) = Fin (of_int n)"
proof -
  consider "n = 0" | "0 < n" | "n < 0" by linarith
  then show ?thesis
  proof cases
    case 1
    then show ?thesis by (simp add: toNumber_def)
  next
    case 2
    with assms show ?thesis by (intro toNumber_pos_int_exact) simp_all
  next
    case 3
    with assms have "toNumber (of_int (- n)) = Fin (of_int (- n))"
      by (intro toNumber_pos_int_exact) simp_all
    then show ?thesis
      using toNumber_uminus [of "of_int (- n)"] by simp
  qed
qed

lemma toNumber_neg_int_upper:
  assumes "n < 0"
  shows "toNumber (of_int n) = NInf \<or> (\<exists>r. toNumber (of_int n) = Fin r \<and> r \<le> of_int n / 2)"
  using toNumber_pos_int_lower [of "- n"] assms toNumber_uminus [of "of_int (- n)"]
  by auto

lemma digit_not_space: "isDigit c \<Longrightarrow> \<not> isWhiteSpace c"
  by (auto simp: isDigit_def isWhiteSpace_def)

lemma digit_not_sign: "isDigit c \<Longrightarrow> c \<noteq> CHR ''+'' \<and> c \<noteq> CHR ''-'' \<and> c \<noteq> CHR ''I''"
  by (auto simp: isDigit_def)

lemma digitVal_nonneg: "isDigit c \<Longrightarrow> 0 \<le> digitVal c"
  by (auto simp: isDigit_def digitVal_def)

lemma digitsVal_Nil: "digitsVal [] = 0"
  by (simp add: digitsVal_def)

lemma digitsVal_snoc: "digitsVal (ds @ [c]) = 10 * digitsVal ds + digitVal c"
  by (simp add: digitsVal_def)

lemma digitsVal_nonneg: "list_all isDigit ds \<Longrightarrow> 0 \<le> digitsVal ds"
  by (induction ds rule: rev_induct) (auto simp: digitsVal_snoc digitVal_nonneg digitsVal_def)

lemma digits_prefix:
  assumes "ds \<noteq> []" and "list_all isDigit ds"
  shows "dropWhile isWhiteSpace ds = ds" and "takeWhile isDigit ds = ds"
    and "hd ds \<noteq> CHR ''+''" and "hd ds \<noteq> CHR ''-''" and "\<not> starts_with ds ''Infinity''"
    and "dropWhile isDigit ds = []"
  using assms by (cases ds; auto simp: digit_not_space digit_not_sign list_all_iff)+

lemma parseInt_str_digits:
  assumes "ds \<noteq> []" and "list_all isDigit ds"
  shows "parseInt_str ds = toNumber (of_int (digitsVal ds))"
  by (simp add: parseInt_str_def Let_def digits_prefix [OF assms] assms(1))

lemma parseInt_str_minus_digits:
  assumes "ds \<noteq> []" and "list_all isDigit ds"
  shows "parseInt_str (CHR ''-'' # ds) = toNumber (of_int (- digitsVal ds))"
  by (simp add: parseInt_str_def Let_def isWhiteSpace_def digits_prefix [OF assms] assms(1))

lemma parseInt_str_no_digit:
  assumes "\<not> list_ex isDigit s"
  shows "parseInt_str s = NaN"
proof -
  define t where "t = dropWhile isWhiteSpace s"
  define u where "u = (if t \<noteq> [] \<and> (hd t = CHR ''+'' \<or> hd t = CHR ''-'') then tl t else t)"
  have "set t \<subseteq> set s" unfolding t_def by (auto dest: set_dropWhileD)
  moreover have "set u \<subseteq> set t" unfolding u_def by (auto dest: list.set_sel(2))
  ultimately have "\<forall>c\<in>set u. \<not> isDigit c" using assms by (auto simp: list_ex_iff)
  then have "takeWhile isDigit u = []" by (cases u) auto
  then show ?thesis
    by (simp add: parseInt_str_def Let_def t_def [symmetric] u_def [symmetric])
qed

lemma parseInt_str_bad_start:
  assumes "\<not> isWhiteSpace c" and "c \<noteq> CHR ''+''" and "c \<noteq> CHR ''-''" and "\<not> isDigit c"
  shows "parseInt_str (c # s) = NaN"
  using assms by (simp add: parseInt_str_def Let_def)

lemma parseFloat_str_digits:
  assumes "ds \<noteq> []" and "list_all isDigit ds"
  shows "parseFloat_str ds = toNumber (of_int (digitsVal ds))"
  by (simp add: parseFloat_str_def Let_def pow10_def digitsVal_Nil digits_prefix [OF assms]
      assms(1))

lemma parseFloat_str_minus_digits:
  assumes "ds \<noteq> []" and "list_all isDigit ds"
  shows "parseFloat_str (CHR ''-'' # ds) = toNumber (of_int (- digitsVal ds))"
  by (simp add: parseFloat_str_def Let_def pow10_def isWhiteSpace_def digitsVal_Nil
      digits_prefix [OF assms] assms(1))

lemma digit_char:
  assumes "d < 10"
  shows "isDigit (char_of (48 + d))" and "digitVal (char_of (48 + d)) = int d"
proof -
  from assms have "d \<in> {0, 1, 2, 3, 4, 5, 6, 7, 8, 9}" by auto
  then show "isDigit (char_of (48 + d))"
    by (elim insertE emptyE; hypsubst; code_simp)
  from assms show "digitVal (char_of (48 + d)) = int d"
    by (simp add: digitVal_def)
qed

lemma natToString_digits:
  "natToString n \<noteq> [] \<and> list_all isDigit (natToString n) \<and> digitsVal (natToString n) = int n"
proof (induction n rule: natToString.induct)
  case (1 n)
  show ?case
  proof (cases "n < 10")
    case True
    then show ?thesis
      using digit_char [of n] by (subst (1 2 3) natToString.simps) (simp add: digitsVal_def)
  next
    case False
    have "n mod 10 < 10" by simp
    moreover have "10 * int (n div 10) + int (n mod 10) = int n" by presburger
    ultimately show ?thesis
      using 1 [OF False] digit_char [of "n mod 10"] False
      by (subst (1 2 3) natToString.simps) (simp add: digitsVal_snoc)
  qed
qed

lemma numToString_int: "\<bar>n\<bar> \<le> 2 ^ 53 \<Longrightarrow> numToString E (Fin (of_int n)) = intToString n"
proof -
  assume "\<bar>n\<bar> \<le> 2 ^ 53"
  then have "\<bar>rat_of_int n\<bar> \<le> 2 ^ 53"
    by (metis of_int_abs of_int_le_iff of_int_numeral of_int_power)
  then show ?thesis by (simp add: numToString_def)
qed

lemma parseInt_str_intToString: "parseInt_str (intToString n) = toNumber (of_int n)"
  using natToString_digits [of "nat n"] natToString_digits [of "nat (- n)"]
  by (auto simp: intToString_def parseInt_str_digits parseInt_str_minus_digits)

lemma parseFloat_str_intToString: "parseFloat_str (intToString n) = toNumber (of_int n)"
  using natToString_digits [of "nat n"] natToString_digits [of "nat (- n)"]
  by (auto simp: intToString_def parseFloat_str_digits parseFloat_str_minus_digits)

lemma parseInt_Num_int:
  "\<bar>n\<bar> \<le> 2 ^ 53 \<Longrightarrow> parseInt E (Num (Fin (of_int n))) = Fin (of_int n)"
  by (simp add: parseInt_def numToString_int parseInt_str_intToString toNumber_int_exact)

lemma parseFloat_Num_int:
  "\<bar>n\<bar> \<le> 2 ^ 53 \<Longrightarrow> parseFloat E (Num (Fin (of_int n))) = Fin (of_int n)"
  by (simp add: parseFloat_def numToString_int parseFloat_str_intToString toNumber_int_exact)

section \<open>Quality\<close>

text \<open>Whether the Number of an integer is below or above a small bound.\<close>

lemma toNumber_int_lt:
  assumes "\<bar>c\<bar> \<le> 2 ^ 52"
  shows "num_lt (toNumber (of_int n)) (of_int c) = (n < c)"
proof (cases "\<bar>n\<bar> \<le> 2 ^ 53")
  case True
  then show ?thesis by (simp add: toNumber_int_exact)
next
  case False
  then consider "2 ^ 53 < n" | "n < - (2 ^ 53)" by linarith
  then show ?thesis
  proof cases
    case 1
    then have "0 < n" by simp
    from toNumber_pos_int_lower [OF this] show ?thesis
    proof (elim disjE exE conjE)
      fix r assume r: "toNumber (rat_of_int n) = Fin r" "rat_of_int n / 2 \<le> r"
      have "rat_of_int (2 ^ 53) < rat_of_int n" using 1 by (simp only: of_int_less_iff)
      then have "2 ^ 52 < rat_of_int n / 2" by simp
      moreover have "rat_of_int c \<le> rat_of_int (2 ^ 52)"
        using assms by (simp only: of_int_le_iff; simp)
      ultimately have "rat_of_int c < r" using r(2) by simp
      moreover have "c < n" using 1 assms by simp
      ultimately show ?thesis using r(1) by simp
    next
      assume "toNumber (rat_of_int n) = PInf"
      moreover have "c < n" using 1 assms by simp
      ultimately show ?thesis by simp
    qed
  next
    case 2
    then have "n < 0" by simp
    from toNumber_neg_int_upper [OF this] show ?thesis
    proof (elim disjE exE conjE)
      fix r assume r: "toNumber (rat_of_int n) = Fin r" "r \<le> rat_of_int n / 2"
      have "rat_of_int n < rat_of_int (- (2 ^ 53))" using 2 by (simp only: of_int_less_iff)
      then have "rat_of_int n / 2 < - (2 ^ 52)" by simp
      moreover have "rat_of_int (- (2 ^ 52)) \<le> rat_of_int c"
        using assms by (simp only: of_int_le_iff; simp)
      ultimately have "r < rat_of_int c" using r(2) by simp
      moreover have "n < c" using 2 assms by simp
      ultimately show ?thesis using r(1) by simp
    next
      assume "toNumber (rat_of_int n) = NInf"
      moreover have "n < c" using 2 assms by simp
      ultimately show ?thesis by simp
    qed
  qed
qed

lemma toNumber_int_gt:
  assumes "\<bar>c\<bar> \<le> 2 ^ 52"
  shows "num_gt (toNumber (of_int n)) (of_int c) = (c < n)"
proof -
  have "\<bar>- c\<bar> \<le> 2 ^ 52" using assms by simp
  from toNumber_int_lt [OF this, of "- n"] show ?thesis
    using toNumber_uminus [of "of_int n"]
    by (cases "toNumber (rat_of_int n)") auto
qed

lemma toNumber_not_NaN: "toNumber q \<noteq> NaN"
  by (simp add: toNumber_def Let_def)

lemma quality_int:
  assumes "truthy v" and "parseInt E v = toNumber (of_int n)"
  shows "quality E v argv =
           (if 1 \<le> n \<and> n \<le> 12 then Inr (argv(''quality'' := Num (Fin (of_int n))))
            else die (Invalid_quality_level v) argv)"
proof (cases "1 \<le> n \<and> n \<le> 12")
  case True
  then have "toNumber (rat_of_int n) = Fin (of_int n)" by (intro toNumber_int_exact) simp
  with True assms show ?thesis by (simp add: quality_def isNaN_def)
next
  case False
  then have "num_lt (toNumber (of_int n)) 1 \<or> num_gt (toNumber (of_int n)) 12"
    using toNumber_int_lt [of 1 n] toNumber_int_gt [of 12 n] by auto
  with False assms show ?thesis by (auto simp: quality_def isNaN_def toNumber_not_NaN)
qed

lemma quality_Num_int:
  assumes "\<bar>n\<bar> \<le> 2 ^ 53" and "n \<noteq> 0"
  shows "quality E (Num (Fin (of_int n))) argv =
           (if 1 \<le> n \<and> n \<le> 12 then Inr (argv(''quality'' := Num (Fin (of_int n))))
            else die (Invalid_quality_level (Num (Fin (of_int n)))) argv)"
proof -
  have "parseInt E (Num (Fin (of_int n))) = toNumber (of_int n)"
    using assms(1) by (simp add: parseInt_Num_int toNumber_int_exact)
  moreover have "truthy (Num (Fin (of_int n)))" using assms(2) by simp
  ultimately show ?thesis by (rule quality_int [rotated])
qed

lemma quality_NaN:
  "truthy v \<Longrightarrow> parseInt E v = NaN \<Longrightarrow> quality E v argv = die Invalid_quality_number argv"
  by (simp add: quality_def isNaN_def)

lemma parseInt_Str: "parseInt E (Str s) = parseInt_str s"
  by (simp add: parseInt_def)

lemma digitsVal_examples:
  "digitsVal ''0'' = 0" "digitsVal ''1'' = 1" "digitsVal ''2'' = 2" "digitsVal ''5'' = 5"
  "digitsVal ''10'' = 10" "digitsVal ''12'' = 12" "digitsVal ''13'' = 13"
  "digitsVal ''100'' = 100" "digitsVal ''101'' = 101"
  by (simp_all add: digitsVal_def digitVal_def)

lemma sign_not_space: "\<not> isWhiteSpace CHR ''+''" "\<not> isWhiteSpace CHR ''-''"
  by (simp_all add: isWhiteSpace_def)

lemma takeWhile_digits_prefix:
  assumes "list_all isDigit ds" and "rest = [] \<or> \<not> isDigit (hd rest)"
  shows "takeWhile isDigit (ds @ rest) = ds"
proof -
  have "takeWhile isDigit rest = []" using assms(2) by (cases rest) auto
  moreover have "takeWhile isDigit (ds @ rest) = ds @ takeWhile isDigit rest"
    using assms(1) by (intro takeWhile_append2) (simp add: list_all_iff)
  ultimately show ?thesis by simp
qed

lemma dropWhile_space_prefix:
  assumes "list_all isWhiteSpace ws" and "\<not> isWhiteSpace c"
  shows "dropWhile isWhiteSpace (ws @ c # u) = c # u"
proof -
  have "dropWhile isWhiteSpace (ws @ c # u) = dropWhile isWhiteSpace (c # u)"
    using assms(1) by (intro dropWhile_append2) (simp add: list_all_iff)
  then show ?thesis using assms(2) by simp
qed

text \<open>\<open>parseInt\<close> reads the integer at the front of a string, after white
  space and a sign, and ignores what follows the digits.\<close>

lemma parseInt_str_prefix:
  assumes "list_all isWhiteSpace ws"
    and "ds \<noteq> []" and "list_all isDigit ds" and "rest = [] \<or> \<not> isDigit (hd rest)"
  shows "parseInt_str (ws @ ds @ rest) = toNumber (of_int (digitsVal ds))"
    and "parseInt_str (ws @ CHR ''+'' # ds @ rest) = toNumber (of_int (digitsVal ds))"
    and "parseInt_str (ws @ CHR ''-'' # ds @ rest) = toNumber (of_int (- digitsVal ds))"
proof -
  obtain d ds' where ds: "ds = d # ds'" using assms(2) by (cases ds) auto
  with assms(3) have d: "isDigit d" by simp
  note tw = takeWhile_digits_prefix [OF assms(3,4)]
  have "dropWhile isWhiteSpace (ws @ d # ds' @ rest) = d # ds' @ rest"
    using assms(1) digit_not_space [OF d] by (rule dropWhile_space_prefix)
  then have t: "dropWhile isWhiteSpace (ws @ ds @ rest) = ds @ rest" by (simp add: ds)
  have h: "hd (ds @ rest) \<noteq> CHR ''+''" "hd (ds @ rest) \<noteq> CHR ''-''" "ds @ rest \<noteq> []"
    using digit_not_sign [OF d] by (simp_all add: ds)
  show "parseInt_str (ws @ ds @ rest) = toNumber (of_int (digitsVal ds))"
    unfolding parseInt_str_def Let_def t using h assms(2) by (simp add: tw)
  have p: "dropWhile isWhiteSpace (ws @ CHR ''+'' # ds @ rest) = CHR ''+'' # ds @ rest"
    using assms(1) sign_not_space(1) by (rule dropWhile_space_prefix)
  show "parseInt_str (ws @ CHR ''+'' # ds @ rest) = toNumber (of_int (digitsVal ds))"
    unfolding parseInt_str_def Let_def p using assms(2) by (simp add: tw)
  have m: "dropWhile isWhiteSpace (ws @ CHR ''-'' # ds @ rest) = CHR ''-'' # ds @ rest"
    using assms(1) sign_not_space(2) by (rule dropWhile_space_prefix)
  show "parseInt_str (ws @ CHR ''-'' # ds @ rest) = toNumber (of_int (- digitsVal ds))"
    unfolding parseInt_str_def Let_def m using assms(2) by (simp add: tw)
qed

lemma parseInt_prefix_ok:
  assumes "ds \<noteq> []" and "list_all isDigit ds" and "digitsVal ds \<le> 2 ^ 53"
    and "rest = [] \<or> \<not> isDigit (hd rest)"
  shows "parseInt E (Str (ds @ rest)) = Fin (of_int (digitsVal ds))"
proof -
  have "0 \<le> digitsVal ds" using assms(2) by (rule digitsVal_nonneg)
  with assms(3) have "\<bar>digitsVal ds\<bar> \<le> 2 ^ 53" by simp
  then show ?thesis
    using parseInt_str_prefix(1) [of "[]" ds rest] assms(1,2,4)
    by (simp add: parseInt_Str toNumber_int_exact)
qed

lemma quality_prefix:
  assumes "list_all isWhiteSpace ws"
    and "ds \<noteq> []" and "list_all isDigit ds" and "rest = [] \<or> \<not> isDigit (hd rest)"
  shows "quality E (Str (ws @ ds @ rest)) argv =
           (if 1 \<le> digitsVal ds \<and> digitsVal ds \<le> 12
            then Inr (argv(''quality'' := Num (Fin (of_int (digitsVal ds)))))
            else die (Invalid_quality_level (Str (ws @ ds @ rest))) argv)"
    and "quality E (Str (ws @ CHR ''+'' # ds @ rest)) argv =
           (if 1 \<le> digitsVal ds \<and> digitsVal ds \<le> 12
            then Inr (argv(''quality'' := Num (Fin (of_int (digitsVal ds)))))
            else die (Invalid_quality_level (Str (ws @ CHR ''+'' # ds @ rest))) argv)"
    and "quality E (Str (ws @ CHR ''-'' # ds @ rest)) argv =
           die (Invalid_quality_level (Str (ws @ CHR ''-'' # ds @ rest))) argv"
proof -
  note p = parseInt_str_prefix [OF assms]
  show "quality E (Str (ws @ ds @ rest)) argv =
           (if 1 \<le> digitsVal ds \<and> digitsVal ds \<le> 12
            then Inr (argv(''quality'' := Num (Fin (of_int (digitsVal ds)))))
            else die (Invalid_quality_level (Str (ws @ ds @ rest))) argv)"
    using assms(2) by (intro quality_int) (simp_all add: parseInt_Str p(1))
  show "quality E (Str (ws @ CHR ''+'' # ds @ rest)) argv =
           (if 1 \<le> digitsVal ds \<and> digitsVal ds \<le> 12
            then Inr (argv(''quality'' := Num (Fin (of_int (digitsVal ds)))))
            else die (Invalid_quality_level (Str (ws @ CHR ''+'' # ds @ rest))) argv)"
    by (intro quality_int) (simp_all add: parseInt_Str p(2))
  have "0 \<le> digitsVal ds" using assms(3) by (rule digitsVal_nonneg)
  then have "\<not> (1 \<le> - digitsVal ds \<and> - digitsVal ds \<le> 12)" by simp
  moreover have "quality E (Str (ws @ CHR ''-'' # ds @ rest)) argv =
           (if 1 \<le> - digitsVal ds \<and> - digitsVal ds \<le> 12
            then Inr (argv(''quality'' := Num (Fin (of_int (- digitsVal ds)))))
            else die (Invalid_quality_level (Str (ws @ CHR ''-'' # ds @ rest))) argv)"
    by (intro quality_int) (simp_all add: parseInt_Str p(3))
  ultimately show "quality E (Str (ws @ CHR ''-'' # ds @ rest)) argv =
           die (Invalid_quality_level (Str (ws @ CHR ''-'' # ds @ rest))) argv"
    by (simp only: if_False)
qed

text \<open>
  C5, as stated, fails: a string that is not a number is not always rejected.
  \<open>parseInt\<close> reads the integer at the front of \<open>12abc\<close> and of \<open>5 apples\<close>
  and ignores the rest, so 12 and 5 are stored.
\<close>

theorem quality_non_numeric_counterexample:
  "\<not> list_all isDigit ''12abc''
   \<and> quality sample_env (Str ''12abc'') no_args = Inr (no_args(''quality'' := Num (Fin 12)))
   \<and> fatal_msg (quality sample_env (Str ''12abc'') no_args) = None
   \<and> \<not> list_all isDigit ''5 apples''
   \<and> quality sample_env (Str ''5 apples'') no_args = Inr (no_args(''quality'' := Num (Fin 5)))
   \<and> fatal_msg (quality sample_env (Str ''5 apples'') no_args) = None"
  using quality_prefix(1) [of "[]" "''12''" "''abc''" sample_env no_args]
    quality_prefix(1) [of "[]" "''5''" "'' apples''" sample_env no_args]
  by (simp add: isDigit_def digitsVal_examples)

text \<open>
  C5, amended. An empty quality stores the default. Any other value is
  converted to a string and parsed by \<open>parseInt\<close>: fatal when it reads no
  integer (the result is NaN), fatal when the integer is below 1 or above 12,
  and stored as that Number otherwise. \<open>parseInt\<close> reads no integer from a
  string with no digit, or from one that starts with anything but white
  space, a sign or a digit. From a string that, after white space and an
  optional sign, starts with digits, it reads those digits and ignores
  whatever follows them: such a string, or a number that is an integer, is
  accepted exactly when the value is from 1 to 12. So \<open>0\<close> and \<open>13\<close> are
  fatal, and \<open>1\<close> and \<open>12\<close> are stored as the integers 1 and 12.
\<close>

theorem quality_spec:
  "(\<not> truthy v \<longrightarrow> quality E v argv = Inr (argv(''quality'' := defaultParams_quality E)))
   \<and> (truthy v \<and> parseInt E v = NaN \<longrightarrow> quality E v argv = die Invalid_quality_number argv)
   \<and> (truthy v \<and> (num_lt (parseInt E v) 1 \<or> num_gt (parseInt E v) 12) \<longrightarrow>
        quality E v argv = die (Invalid_quality_level v) argv)
   \<and> (truthy v \<and> parseInt E v = Fin q \<and> 1 \<le> q \<and> q \<le> 12 \<longrightarrow>
        quality E v argv = Inr (argv(''quality'' := Num (Fin q))))
   \<and> (s \<noteq> [] \<and> \<not> list_ex isDigit s \<longrightarrow>
        quality E (Str s) argv = die Invalid_quality_number argv)
   \<and> (\<not> isWhiteSpace c \<and> c \<noteq> CHR ''+'' \<and> c \<noteq> CHR ''-'' \<and> \<not> isDigit c \<longrightarrow>
        quality E (Str (c # cs)) argv = die Invalid_quality_number argv)
   \<and> (list_all isWhiteSpace ws \<and> ds \<noteq> [] \<and> list_all isDigit ds
        \<and> (rest = [] \<or> \<not> isDigit (hd rest)) \<longrightarrow>
        quality E (Str (ws @ ds @ rest)) argv =
          (if 1 \<le> digitsVal ds \<and> digitsVal ds \<le> 12
           then Inr (argv(''quality'' := Num (Fin (of_int (digitsVal ds)))))
           else die (Invalid_quality_level (Str (ws @ ds @ rest))) argv))
   \<and> (list_all isWhiteSpace ws \<and> ds \<noteq> [] \<and> list_all isDigit ds
        \<and> (rest = [] \<or> \<not> isDigit (hd rest)) \<longrightarrow>
        quality E (Str (ws @ CHR ''+'' # ds @ rest)) argv =
          (if 1 \<le> digitsVal ds \<and> digitsVal ds \<le> 12
           then Inr (argv(''quality'' := Num (Fin (of_int (digitsVal ds)))))
           else die (Invalid_quality_level (Str (ws @ CHR ''+'' # ds @ rest))) argv))
   \<and> (list_all isWhiteSpace ws \<and> ds \<noteq> [] \<and> list_all isDigit ds
        \<and> (rest = [] \<or> \<not> isDigit (hd rest)) \<longrightarrow>
        quality E (Str (ws @ CHR ''-'' # ds @ rest)) argv =
          die (Invalid_quality_level (Str (ws @ CHR ''-'' # ds @ rest))) argv)
   \<and> (\<bar>n\<bar> \<le> 2 ^ 53 \<and> n \<noteq> 0 \<longrightarrow>
        quality E (Num (Fin (of_int n))) argv =
          (if 1 \<le> n \<and> n \<le> 12 then Inr (argv(''quality'' := Num (Fin (of_int n))))
           else die (Invalid_quality_level (Num (Fin (of_int n)))) argv))
   \<and> quality E (Str ''0'') argv = die (Invalid_quality_level (Str ''0'')) argv
   \<and> quality E (Str ''13'') argv = die (Invalid_quality_level (Str ''13'')) argv
   \<and> quality E (Str ''1'') argv = Inr (argv(''quality'' := Num (Fin 1)))
   \<and> quality E (Str ''12'') argv = Inr (argv(''quality'' := Num (Fin 12)))"
proof -
  have digits: "quality E (Str ds) argv =
          (if 1 \<le> digitsVal ds \<and> digitsVal ds \<le> 12
           then Inr (argv(''quality'' := Num (Fin (of_int (digitsVal ds)))))
           else die (Invalid_quality_level (Str ds)) argv)"
    if "ds \<noteq> []" "list_all isDigit ds" for ds
    using that by (intro quality_int) (simp_all add: parseInt_Str parseInt_str_digits)
  have a: "\<not> truthy v \<Longrightarrow>
      quality E v argv = Inr (argv(''quality'' := defaultParams_quality E))"
    by (simp add: quality_def)
  note b = quality_NaN [of v E argv]
  have c: "truthy v \<Longrightarrow> num_lt (parseInt E v) 1 \<or> num_gt (parseInt E v) 12 \<Longrightarrow>
        quality E v argv = die (Invalid_quality_level v) argv"
    by (cases "parseInt E v") (auto simp: quality_def isNaN_def)
  have d: "truthy v \<Longrightarrow> parseInt E v = Fin q \<Longrightarrow> 1 \<le> q \<Longrightarrow> q \<le> 12 \<Longrightarrow>
        quality E v argv = Inr (argv(''quality'' := Num (Fin q)))"
    by (auto simp: quality_def isNaN_def)
  have e: "s \<noteq> [] \<Longrightarrow> \<not> list_ex isDigit s \<Longrightarrow>
        quality E (Str s) argv = die Invalid_quality_number argv"
    by (simp add: quality_NaN parseInt_Str parseInt_str_no_digit)
  have f: "\<not> isWhiteSpace c \<Longrightarrow> c \<noteq> CHR ''+'' \<Longrightarrow> c \<noteq> CHR ''-'' \<Longrightarrow> \<not> isDigit c \<Longrightarrow>
        quality E (Str (c # cs)) argv = die Invalid_quality_number argv"
    by (simp add: quality_NaN parseInt_Str parseInt_str_bad_start)
  note p = quality_prefix [of ws ds rest E argv]
  note n = quality_Num_int [of n E argv]
  have g: "quality E (Str ''0'') argv = die (Invalid_quality_level (Str ''0'')) argv"
    "quality E (Str ''13'') argv = die (Invalid_quality_level (Str ''13'')) argv"
    "quality E (Str ''1'') argv = Inr (argv(''quality'' := Num (Fin 1)))"
    "quality E (Str ''12'') argv = Inr (argv(''quality'' := Num (Fin 12)))"
    by (simp_all add: digits isDigit_def digitsVal_examples)
  show ?thesis
    apply (intro conjI impI)
    subgoal using a by simp
    subgoal using b by simp
    subgoal using c by simp
    subgoal using d by simp
    subgoal using e by simp
    subgoal using f by simp
    subgoal using p(1) by simp
    subgoal using p(2) by simp
    subgoal using p(3) by simp
    subgoal using n by simp
    subgoal using g(1) by simp
    subgoal using g(2) by simp
    subgoal using g(3) by simp
    subgoal using g(4) by simp
    done
qed

theorem quality_spec_witness:
  "quality sample_env Undefined no_args = Inr (no_args(''quality'' := Num (Fin 5)))
   \<and> quality sample_env (Str ''7'') no_args = Inr (no_args(''quality'' := Num (Fin 7)))
   \<and> quality sample_env (Str ''100'') no_args = die (Invalid_quality_level (Str ''100'')) no_args
   \<and> quality sample_env (Str '' 7px'') no_args = Inr (no_args(''quality'' := Num (Fin 7)))
   \<and> quality sample_env (Str ''+7'') no_args = Inr (no_args(''quality'' := Num (Fin 7)))
   \<and> quality sample_env (Str ''-7'') no_args = die (Invalid_quality_level (Str ''-7'')) no_args
   \<and> quality sample_env (Str ''high'') no_args = die Invalid_quality_number no_args
   \<and> quality sample_env (Str ''x7'') no_args = die Invalid_quality_number no_args
   \<and> quality sample_env (Num (Fin 9)) no_args = Inr (no_args(''quality'' := Num (Fin 9)))"
  using quality_spec [where v = Undefined and E = sample_env and argv = no_args]
    quality_spec [where n = 9 and E = sample_env and argv = no_args]
    quality_spec [where ws = "[]" and ds = "''7''" and rest = "[]" and E = sample_env
      and argv = no_args]
    quality_spec [where ws = "[]" and ds = "''100''" and rest = "[]" and E = sample_env
      and argv = no_args]
    quality_spec [where ws = "'' ''" and ds = "''7''" and rest = "''px''" and E = sample_env
      and argv = no_args]
    quality_spec [where s = "''high''" and E = sample_env and argv = no_args]
    quality_spec [where c = "CHR ''x''" and cs = "''7''" and E = sample_env and argv = no_args]
  by (simp add: isDigit_def isWhiteSpace_def digitsVal_def digitVal_def sample_env_def)

section \<open>Padding\<close>

lemma check_sizes_bad:
  "x \<in> set sizes \<Longrightarrow> x = NaN \<or> num_lt x 0 \<Longrightarrow>
     check_sizes sizes = Some Invalid_padding_not_numbers
     \<or> check_sizes sizes = Some Invalid_padding_not_positive"
  by (induction sizes) (auto simp: isNaN_def)

lemma padding_too_many:
  "truthy v \<Longrightarrow> padding_values v = Some vals \<Longrightarrow> 2 < length vals \<Longrightarrow>
     padding E v argv = die Invalid_padding argv"
  by (simp add: padding_def)

lemma padding_checked:
  assumes "truthy v" and "padding_values v = Some vals" and "length vals \<le> 2"
  shows "padding E v argv =
           (let sizes = map (parseInt E) vals
            in case check_sizes sizes of
                 Some msg \<Rightarrow> die msg argv
               | None \<Rightarrow>
                   Inr (argv(''padding'' :=
                     Arr (map Num (if length sizes = 1 then [sizes ! 0, sizes ! 0]
                                   else sizes)))))"
  using assms by (simp add: padding_def)

lemma padding_bad:
  assumes "truthy v" and "padding_values v = Some vals" and "length vals \<le> 2"
    and "x \<in> set vals" and "parseInt E x = NaN \<or> num_lt (parseInt E x) 0"
  shows "padding E v argv = die Invalid_padding_not_numbers argv
       \<or> padding E v argv = die Invalid_padding_not_positive argv"
proof -
  have "parseInt E x \<in> set (map (parseInt E) vals)" using assms(4) by simp
  from check_sizes_bad [OF this assms(5)] show ?thesis
    unfolding padding_checked [OF assms(1-3)] Let_def by auto
qed

lemma padding_one:
  assumes "truthy v" and "padding_values v = Some [x]"
    and "parseInt E x \<noteq> NaN" and "\<not> num_lt (parseInt E x) 0"
  shows "padding E v argv
           = Inr (argv(''padding'' := Arr [Num (parseInt E x), Num (parseInt E x)]))"
  using assms by (simp add: padding_def isNaN_def)

lemma padding_two:
  assumes "truthy v" and "padding_values v = Some [x, y]"
    and "parseInt E x \<noteq> NaN" and "\<not> num_lt (parseInt E x) 0"
    and "parseInt E y \<noteq> NaN" and "\<not> num_lt (parseInt E y) 0"
  shows "padding E v argv
           = Inr (argv(''padding'' := Arr [Num (parseInt E x), Num (parseInt E y)]))"
  using assms by (simp add: padding_def isNaN_def)

text \<open>A string of digits as an entry: a size that is a number and not negative.\<close>

lemma parseInt_digits_ok:
  assumes "ds \<noteq> []" and "list_all isDigit ds" and "digitsVal ds \<le> 2 ^ 53"
  shows "parseInt E (Str ds) = Fin (of_int (digitsVal ds))"
    and "\<not> num_lt (Fin (rat_of_int (digitsVal ds))) 0"
proof -
  have "0 \<le> digitsVal ds" using assms(2) by (rule digitsVal_nonneg)
  then show "\<not> num_lt (Fin (rat_of_int (digitsVal ds))) 0" by simp
  from \<open>0 \<le> digitsVal ds\<close> assms(3) have "\<bar>digitsVal ds\<bar> \<le> 2 ^ 53" by simp
  then show "parseInt E (Str ds) = Fin (of_int (digitsVal ds))"
    by (simp add: parseInt_Str parseInt_str_digits assms(1,2) toNumber_int_exact)
qed

lemma parseInt_minus_digits_neg:
  assumes "ds \<noteq> []" and "list_all isDigit ds" and "0 < digitsVal ds"
  shows "num_lt (parseInt E (Str (CHR ''-'' # ds))) 0"
  using toNumber_int_lt [of 0 "- digitsVal ds"] assms
  by (simp add: parseInt_Str parseInt_str_minus_digits)

lemma digits_no_comma:
  assumes "list_all isDigit ds"
  shows "CHR '','' \<notin> set ds"
proof
  assume "CHR '','' \<in> set ds"
  with assms have "isDigit CHR '',''" by (simp add: list_all_iff)
  then show False by (simp add: isDigit_def)
qed

lemma padding_digits_one:
  assumes "ds \<noteq> []" and "list_all isDigit ds" and "digitsVal ds \<le> 2 ^ 53"
  shows "padding E (Str ds) argv
           = Inr (argv(''padding'' := Arr [Num (Fin (of_int (digitsVal ds))),
                                          Num (Fin (of_int (digitsVal ds)))]))"
proof -
  have "padding_values (Str ds) = Some [Str ds]"
    using digits_no_comma [OF assms(2)] by (simp add: split_on_no_sep)
  from padding_one [where v = "Str ds" and x = "Str ds" and E = E and argv = argv, OF _ this]
  show ?thesis
    using parseInt_digits_ok(1) [OF assms, of E] parseInt_digits_ok(2) [OF assms] assms(1)
    by simp
qed

lemma padding_digits_two:
  assumes "ds \<noteq> []" and "list_all isDigit ds" and "digitsVal ds \<le> 2 ^ 53"
    and "es \<noteq> []" and "list_all isDigit es" and "digitsVal es \<le> 2 ^ 53"
  shows "padding E (Str (ds @ CHR '','' # es)) argv
           = Inr (argv(''padding'' := Arr [Num (Fin (of_int (digitsVal ds))),
                                          Num (Fin (of_int (digitsVal es)))]))"
proof -
  have "padding_values (Str (ds @ CHR '','' # es)) = Some [Str ds, Str es]"
    using digits_no_comma [OF assms(2)] digits_no_comma [OF assms(5)]
    by (simp add: split_on_no_sep split_on_sep)
  from padding_two [where v = "Str (ds @ CHR '','' # es)" and x = "Str ds" and y = "Str es"
      and E = E and argv = argv, OF _ this]
  show ?thesis
    using parseInt_digits_ok(1) [OF assms(1-3), of E] parseInt_digits_ok(2) [OF assms(1-3)]
      parseInt_digits_ok(1) [OF assms(4-6), of E] parseInt_digits_ok(2) [OF assms(4-6)]
    by simp
qed

lemma padding_examples:
  "padding E (Str ''5'') argv = Inr (argv(''padding'' := Arr [Num (Fin 5), Num (Fin 5)]))"
  "padding E (Str ''5,10'') argv = Inr (argv(''padding'' := Arr [Num (Fin 5), Num (Fin 10)]))"
  "padding E (Str ''5,10,15'') argv = die Invalid_padding argv"
  "padding E (Str ''-1,2'') argv = die Invalid_padding_not_positive argv"
proof -
  show "padding E (Str ''5'') argv = Inr (argv(''padding'' := Arr [Num (Fin 5), Num (Fin 5)]))"
    using padding_digits_one [of "''5''" E argv]
    by (simp add: isDigit_def digitsVal_examples)
  show "padding E (Str ''5,10'') argv
          = Inr (argv(''padding'' := Arr [Num (Fin 5), Num (Fin 10)]))"
    using padding_digits_two [of "''5''" "''10''" E argv]
    by (simp add: isDigit_def digitsVal_examples)
  show "padding E (Str ''5,10,15'') argv = die Invalid_padding argv"
    by (simp add: padding_def)
  have "num_lt (parseInt E (Str ''-1'')) 0"
    using parseInt_minus_digits_neg [of "''1''" E] by (simp add: isDigit_def digitsVal_examples)
  moreover have "parseInt E (Str ''-1'') \<noteq> NaN"
    by (simp add: parseInt_Str parseInt_str_minus_digits isDigit_def toNumber_not_NaN)
  ultimately show "padding E (Str ''-1,2'') argv = die Invalid_padding_not_positive argv"
    by (simp add: padding_def isNaN_def)
qed

text \<open>An entry that starts with digits is a size, whatever follows the digits.\<close>

lemma padding_prefix_one:
  assumes "ds \<noteq> []" and "list_all isDigit ds" and "digitsVal ds \<le> 2 ^ 53"
    and "ra = [] \<or> \<not> isDigit (hd ra)" and "CHR '','' \<notin> set ra"
  shows "padding E (Str (ds @ ra)) argv
           = Inr (argv(''padding'' := Arr [Num (Fin (of_int (digitsVal ds))),
                                          Num (Fin (of_int (digitsVal ds)))]))"
proof -
  have "CHR '','' \<notin> set (ds @ ra)" using digits_no_comma [OF assms(2)] assms(5) by simp
  then have "padding_values (Str (ds @ ra)) = Some [Str (ds @ ra)]"
    by (simp add: split_on_no_sep)
  from padding_one [where v = "Str (ds @ ra)" and x = "Str (ds @ ra)" and E = E
      and argv = argv, OF _ this]
  show ?thesis
    using parseInt_prefix_ok [OF assms(1-4), of E] parseInt_digits_ok(2) [OF assms(1-3)]
      assms(1)
    by simp
qed

lemma padding_prefix_two:
  assumes "ds \<noteq> []" and "list_all isDigit ds" and "digitsVal ds \<le> 2 ^ 53"
    and "ra = [] \<or> \<not> isDigit (hd ra)" and "CHR '','' \<notin> set ra"
    and "es \<noteq> []" and "list_all isDigit es" and "digitsVal es \<le> 2 ^ 53"
    and "rb = [] \<or> \<not> isDigit (hd rb)" and "CHR '','' \<notin> set rb"
  shows "padding E (Str (ds @ ra @ CHR '','' # es @ rb)) argv
           = Inr (argv(''padding'' := Arr [Num (Fin (of_int (digitsVal ds))),
                                          Num (Fin (of_int (digitsVal es)))]))"
proof -
  have c1: "CHR '','' \<notin> set (ds @ ra)" using digits_no_comma [OF assms(2)] assms(5) by simp
  have c2: "CHR '','' \<notin> set (es @ rb)" using digits_no_comma [OF assms(7)] assms(10) by simp
  have "split_on CHR '','' ((ds @ ra) @ CHR '','' # (es @ rb)) = [ds @ ra, es @ rb]"
    by (simp only: split_on_sep [OF c1] split_on_no_sep [OF c2])
  then have "padding_values (Str (ds @ ra @ CHR '','' # es @ rb))
               = Some [Str (ds @ ra), Str (es @ rb)]"
    by simp
  from padding_two [where v = "Str (ds @ ra @ CHR '','' # es @ rb)" and x = "Str (ds @ ra)"
      and y = "Str (es @ rb)" and E = E and argv = argv, OF _ this]
  show ?thesis
    using parseInt_prefix_ok [OF assms(1-4), of E] parseInt_digits_ok(2) [OF assms(1-3)]
      parseInt_prefix_ok [OF assms(6-9), of E] parseInt_digits_ok(2) [OF assms(6-8)]
      assms(1)
    by simp
qed

lemma padding_empty_array: "padding E (Arr []) argv = Inr (argv(''padding'' := Arr []))"
  by (simp add: padding_def)

text \<open>
  C6, as stated, fails: an entry that is not a number is not always fatal.
  \<open>parseInt\<close> reads 5 from \<open>5x\<close>, and 1 and 2 from \<open>1.9\<close> and \<open>2e3\<close>, and
  the padding is stored.
\<close>

theorem padding_non_numeric_counterexample:
  "\<not> list_all isDigit ''5x''
   \<and> padding sample_env (Str ''5x'') no_args
       = Inr (no_args(''padding'' := Arr [Num (Fin 5), Num (Fin 5)]))
   \<and> fatal_msg (padding sample_env (Str ''5x'') no_args) = None
   \<and> padding sample_env (Str ''1.9,2e3'') no_args
       = Inr (no_args(''padding'' := Arr [Num (Fin 1), Num (Fin 2)]))
   \<and> fatal_msg (padding sample_env (Str ''1.9,2e3'') no_args) = None"
  using padding_prefix_one [of "''5''" "''x''" sample_env no_args]
    padding_prefix_two [of "''1''" "''.9''" "''2''" "''e3''" sample_env no_args]
  by (simp add: isDigit_def digitsVal_examples)

text \<open>
  C6, amended. An empty padding stores \<open>[0, 0]\<close>; an array is never empty,
  and the array with no entry stores \<open>[]\<close>. Otherwise the entries are those
  of the array, or the fields of the string between its commas, each parsed
  by \<open>parseInt\<close>. More than two entries are fatal; an entry from which
  \<open>parseInt\<close> reads no integer (NaN), or a negative one, is fatal; one good
  entry is stored twice, two good entries are stored in their order. An
  entry that starts with digits is read as those digits, whatever follows
  them. So \<open>5\<close> gives \<open>[5, 5]\<close>, \<open>5,10\<close> gives \<open>[5, 10]\<close>, and \<open>5,10,15\<close> and
  \<open>-1,2\<close> are fatal.
\<close>

theorem padding_spec:
  "(\<not> truthy v \<longrightarrow>
      padding E v argv = Inr (argv(''padding'' := Arr [Num (Fin 0), Num (Fin 0)])))
   \<and> padding E (Arr []) argv = Inr (argv(''padding'' := Arr []))
   \<and> (truthy v \<and> padding_values v = Some vals \<and> 2 < length vals \<longrightarrow>
        padding E v argv = die Invalid_padding argv)
   \<and> (truthy v \<and> padding_values v = Some vals \<and> length vals \<le> 2 \<and> x \<in> set vals
        \<and> (parseInt E x = NaN \<or> num_lt (parseInt E x) 0) \<longrightarrow>
        padding E v argv = die Invalid_padding_not_numbers argv
        \<or> padding E v argv = die Invalid_padding_not_positive argv)
   \<and> (truthy v \<and> padding_values v = Some [y]
        \<and> parseInt E y \<noteq> NaN \<and> \<not> num_lt (parseInt E y) 0 \<longrightarrow>
        padding E v argv
          = Inr (argv(''padding'' := Arr [Num (parseInt E y), Num (parseInt E y)])))
   \<and> (truthy v \<and> padding_values v = Some [y, z]
        \<and> parseInt E y \<noteq> NaN \<and> \<not> num_lt (parseInt E y) 0
        \<and> parseInt E z \<noteq> NaN \<and> \<not> num_lt (parseInt E z) 0 \<longrightarrow>
        padding E v argv
          = Inr (argv(''padding'' := Arr [Num (parseInt E y), Num (parseInt E z)])))
   \<and> (ds \<noteq> [] \<and> list_all isDigit ds \<and> digitsVal ds \<le> 2 ^ 53
        \<and> (ra = [] \<or> \<not> isDigit (hd ra)) \<and> CHR '','' \<notin> set ra \<longrightarrow>
        padding E (Str (ds @ ra)) argv
          = Inr (argv(''padding'' := Arr [Num (Fin (of_int (digitsVal ds))),
                                         Num (Fin (of_int (digitsVal ds)))])))
   \<and> (ds \<noteq> [] \<and> list_all isDigit ds \<and> digitsVal ds \<le> 2 ^ 53
        \<and> (ra = [] \<or> \<not> isDigit (hd ra)) \<and> CHR '','' \<notin> set ra
        \<and> es \<noteq> [] \<and> list_all isDigit es \<and> digitsVal es \<le> 2 ^ 53
        \<and> (rb = [] \<or> \<not> isDigit (hd rb)) \<and> CHR '','' \<notin> set rb \<longrightarrow>
        padding E (Str (ds @ ra @ CHR '','' # es @ rb)) argv
          = Inr (argv(''padding'' := Arr [Num (Fin (of_int (digitsVal ds))),
                                         Num (Fin (of_int (digitsVal es)))])))
   \<and> padding E (Str ''5'') argv = Inr (argv(''padding'' := Arr [Num (Fin 5), Num (Fin 5)]))
   \<and> padding E (Str ''5,10'') argv = Inr (argv(''padding'' := Arr [Num (Fin 5), Num (Fin 10)]))
   \<and> padding E (Str ''5,10,15'') argv = die Invalid_padding argv
   \<and> padding E (Str ''-1,2'') argv = die Invalid_padding_not_positive argv"
proof -
  have a: "\<not> truthy v \<longrightarrow>
      padding E v argv = Inr (argv(''padding'' := Arr [Num (Fin 0), Num (Fin 0)]))"
    by (simp add: padding_def)
  note a' = padding_empty_array [of E argv]
  note b = padding_too_many [of v vals E argv]
  note c = padding_bad [of v vals x E argv]
  note d = padding_one [of v y E argv]
  note e = padding_two [of v y z E argv]
  note f = padding_prefix_one [of ds ra E argv]
  note g = padding_prefix_two [of ds ra es rb E argv]
  note h = padding_examples [of E argv]
  show ?thesis
    apply (intro conjI impI)
    subgoal using a by simp
    subgoal using a' by simp
    subgoal using b by simp
    subgoal using c by simp
    subgoal using d by simp
    subgoal using e by simp
    subgoal using f by simp
    subgoal using g by simp
    subgoal using h(1) by simp
    subgoal using h(2) by simp
    subgoal using h(3) by simp
    subgoal using h(4) by simp
    done
qed

theorem padding_spec_witness:
  "padding sample_env Undefined no_args
     = Inr (no_args(''padding'' := Arr [Num (Fin 0), Num (Fin 0)]))
   \<and> padding sample_env (Arr [Str ''1'', Str ''2'', Str ''3'']) no_args
       = die Invalid_padding no_args
   \<and> padding sample_env (Str ''12'') no_args
       = Inr (no_args(''padding'' := Arr [Num (Fin 12), Num (Fin 12)]))
   \<and> padding sample_env (Str ''12,100'') no_args
       = Inr (no_args(''padding'' := Arr [Num (Fin 12), Num (Fin 100)]))
   \<and> padding sample_env (Str ''12px,100px'') no_args
       = Inr (no_args(''padding'' := Arr [Num (Fin 12), Num (Fin 100)]))
   \<and> (padding sample_env (Str ''5,x'') no_args = die Invalid_padding_not_numbers no_args
      \<or> padding sample_env (Str ''5,x'') no_args = die Invalid_padding_not_positive no_args)"
  using padding_spec [where v = Undefined and E = sample_env and argv = no_args]
    padding_spec [where v = "Arr [Str ''1'', Str ''2'', Str ''3'']"
      and vals = "[Str ''1'', Str ''2'', Str ''3'']" and E = sample_env and argv = no_args]
    padding_spec [where ds = "''12''" and ra = "[]" and es = "''100''" and rb = "[]"
      and E = sample_env and argv = no_args]
    padding_spec [where ds = "''12''" and ra = "''px''" and es = "''100''" and rb = "''px''"
      and E = sample_env and argv = no_args]
    padding_spec [where v = "Str ''5,x''" and vals = "[Str ''5'', Str ''x'']"
      and x = "Str ''x''" and E = sample_env and argv = no_args]
  by (simp add: isDigit_def digitsVal_examples parseInt_Str parseInt_str_bad_start
        isWhiteSpace_def)

section \<open>The splash screen icon ratio\<close>

lemma parseFloat_Str: "parseFloat E (Str s) = parseFloat_str s"
  by (simp add: parseFloat_def)

lemma ratio_empty:
  "\<not> truthy v \<Longrightarrow> v \<noteq> Num (Fin 0) \<Longrightarrow>
     splashscreenIconRatio E v argv
       = Inr (argv(''splashscreenIconRatio'' := defaultParams_splashscreenIconRatio E))"
  by (simp add: splashscreenIconRatio_def)

lemma ratio_NaN:
  "truthy v \<or> v = Num (Fin 0) \<Longrightarrow> parseFloat E v = NaN \<Longrightarrow>
     splashscreenIconRatio E v argv = die Invalid_ratio_number argv"
  by (auto simp: splashscreenIconRatio_def isNaN_def)

lemma ratio_outside:
  "truthy v \<or> v = Num (Fin 0) \<Longrightarrow>
   num_lt (parseFloat E v) 0 \<or> num_gt (parseFloat E v) 100 \<Longrightarrow>
     splashscreenIconRatio E v argv = die (Invalid_ratio v) argv"
  by (cases "parseFloat E v") (auto simp: splashscreenIconRatio_def isNaN_def)

lemma ratio_inside:
  "truthy v \<or> v = Num (Fin 0) \<Longrightarrow> parseFloat E v = Fin q \<Longrightarrow> 0 \<le> q \<Longrightarrow> q \<le> 100 \<Longrightarrow>
     splashscreenIconRatio E v argv = Inr (argv(''splashscreenIconRatio'' := Num (Fin q)))"
  by (auto simp: splashscreenIconRatio_def isNaN_def)

lemma ratio_int:
  assumes "truthy v \<or> v = Num (Fin 0)" and "parseFloat E v = toNumber (of_int n)"
  shows "splashscreenIconRatio E v argv =
           (if 0 \<le> n \<and> n \<le> 100
            then Inr (argv(''splashscreenIconRatio'' := Num (Fin (of_int n))))
            else die (Invalid_ratio v) argv)"
proof (cases "0 \<le> n \<and> n \<le> 100")
  case True
  then have "toNumber (rat_of_int n) = Fin (of_int n)" by (intro toNumber_int_exact) simp
  with True assms show ?thesis by (simp add: ratio_inside)
next
  case False
  then have "num_lt (toNumber (of_int n)) 0 \<or> num_gt (toNumber (of_int n)) 100"
    using toNumber_int_lt [of 0 n] toNumber_int_gt [of 100 n] by auto
  with False assms show ?thesis by (auto simp: ratio_outside)
qed

lemma ratio_Num_int:
  assumes "\<bar>n\<bar> \<le> 2 ^ 53"
  shows "splashscreenIconRatio E (Num (Fin (of_int n))) argv =
           (if 0 \<le> n \<and> n \<le> 100
            then Inr (argv(''splashscreenIconRatio'' := Num (Fin (of_int n))))
            else die (Invalid_ratio (Num (Fin (of_int n)))) argv)"
proof -
  have "parseFloat E (Num (Fin (of_int n))) = toNumber (of_int n)"
    using assms by (simp add: parseFloat_Num_int toNumber_int_exact)
  moreover have "truthy (Num (Fin (of_int n))) \<or> Num (Fin (rat_of_int n)) = Num (Fin 0)"
    by simp
  ultimately show ?thesis by (rule ratio_int [rotated])
qed

lemma ratio_digits:
  assumes "ds \<noteq> []" and "list_all isDigit ds"
  shows "splashscreenIconRatio E (Str ds) argv =
           (if digitsVal ds \<le> 100
            then Inr (argv(''splashscreenIconRatio'' := Num (Fin (of_int (digitsVal ds)))))
            else die (Invalid_ratio (Str ds)) argv)"
  using ratio_int [of "Str ds" E "digitsVal ds" argv] assms digitsVal_nonneg [OF assms(2)]
  by (simp add: parseFloat_Str parseFloat_str_digits)

lemma ratio_minus_digits:
  assumes "ds \<noteq> []" and "list_all isDigit ds" and "0 < digitsVal ds"
  shows "splashscreenIconRatio E (Str (CHR ''-'' # ds)) argv
           = die (Invalid_ratio (Str (CHR ''-'' # ds))) argv"
  using ratio_int [of "Str (CHR ''-'' # ds)" E "- digitsVal ds" argv] assms
  by (simp add: parseFloat_Str parseFloat_str_minus_digits)

lemma ratio_examples:
  "splashscreenIconRatio E (Num (Fin 0)) argv
     = Inr (argv(''splashscreenIconRatio'' := Num (Fin 0)))"
  "splashscreenIconRatio E (Num (Fin 101)) argv = die (Invalid_ratio (Num (Fin 101))) argv"
  "splashscreenIconRatio E (Num (Fin (- 1))) argv = die (Invalid_ratio (Num (Fin (- 1)))) argv"
  "splashscreenIconRatio E (Str ''101'') argv = die (Invalid_ratio (Str ''101'')) argv"
  "splashscreenIconRatio E (Str ''-1'') argv = die (Invalid_ratio (Str ''-1'')) argv"
  using ratio_Num_int [of 0 E argv] ratio_Num_int [of 101 E argv] ratio_Num_int [of "- 1" E argv]
    ratio_digits [of "''101''" E argv] ratio_minus_digits [of "''1''" E argv]
  by (simp_all add: isDigit_def digitsVal_examples)

text \<open>
  C9. The number 0 is not empty for \<open>splashscreenIconRatio\<close>: it is parsed,
  accepted and stored as 0. Every other empty value stores the default. A
  value that is not empty is converted to a string and parsed as a decimal
  literal: fatal when the result is NaN, fatal when it is below 0 or above
  100, and stored as that Number otherwise. An integer, given as a number or
  as a string of digits, is accepted exactly when it is from 0 to 100; 101
  and -1 are fatal.
\<close>

theorem ratio_spec:
  "splashscreenIconRatio E (Num (Fin 0)) argv
     = Inr (argv(''splashscreenIconRatio'' := Num (Fin 0)))
   \<and> (\<not> truthy v \<and> v \<noteq> Num (Fin 0) \<longrightarrow>
        splashscreenIconRatio E v argv
          = Inr (argv(''splashscreenIconRatio'' := defaultParams_splashscreenIconRatio E)))
   \<and> ((truthy v \<or> v = Num (Fin 0)) \<and> parseFloat E v = NaN \<longrightarrow>
        splashscreenIconRatio E v argv = die Invalid_ratio_number argv)
   \<and> ((truthy v \<or> v = Num (Fin 0))
        \<and> (num_lt (parseFloat E v) 0 \<or> num_gt (parseFloat E v) 100) \<longrightarrow>
        splashscreenIconRatio E v argv = die (Invalid_ratio v) argv)
   \<and> ((truthy v \<or> v = Num (Fin 0)) \<and> parseFloat E v = Fin q \<and> 0 \<le> q \<and> q \<le> 100 \<longrightarrow>
        splashscreenIconRatio E v argv = Inr (argv(''splashscreenIconRatio'' := Num (Fin q))))
   \<and> (\<bar>n\<bar> \<le> 2 ^ 53 \<longrightarrow>
        splashscreenIconRatio E (Num (Fin (of_int n))) argv =
          (if 0 \<le> n \<and> n \<le> 100
           then Inr (argv(''splashscreenIconRatio'' := Num (Fin (of_int n))))
           else die (Invalid_ratio (Num (Fin (of_int n)))) argv))
   \<and> (ds \<noteq> [] \<and> list_all isDigit ds \<longrightarrow>
        splashscreenIconRatio E (Str ds) argv =
          (if digitsVal ds \<le> 100
           then Inr (argv(''splashscreenIconRatio'' := Num (Fin (of_int (digitsVal ds)))))
           else die (Invalid_ratio (Str ds)) argv))
   \<and> splashscreenIconRatio E (Num (Fin 101)) argv = die (Invalid_ratio (Num (Fin 101))) argv
   \<and> splashscreenIconRatio E (Num (Fin (- 1))) argv
       = die (Invalid_ratio (Num (Fin (- 1)))) argv
   \<and> splashscreenIconRatio E (Str ''101'') argv = die (Invalid_ratio (Str ''101'')) argv
   \<and> splashscreenIconRatio E (Str ''-1'') argv = die (Invalid_ratio (Str ''-1'')) argv"
proof -
  note a = ratio_empty [of v E argv]
  note b = ratio_NaN [of v E argv]
  note c = ratio_outside [of v E argv]
  note d = ratio_inside [of v E q argv]
  note e = ratio_Num_int [of n E argv]
  note f = ratio_digits [of ds E argv]
  note h = ratio_examples [of E argv]
  show ?thesis
    apply (intro conjI impI)
    subgoal using h(1) by simp
    subgoal using a by simp
    subgoal using b by simp
    subgoal using c by simp
    subgoal using d by simp
    subgoal using e by simp
    subgoal using f by simp
    subgoal using h(2) by simp
    subgoal using h(3) by simp
    subgoal using h(4) by simp
    subgoal using h(5) by simp
    done
qed

lemma parseFloat_str_examples:
  "parseFloat_str ''12.5'' = Fin (25 / 2)" "parseFloat_str ''abc'' = NaN"
  "parseFloat_str ''100.5'' = Fin (201 / 2)"
  by code_simp+

theorem ratio_spec_witness:
  "splashscreenIconRatio sample_env Undefined no_args
     = Inr (no_args(''splashscreenIconRatio'' := Num (Fin 40)))
   \<and> splashscreenIconRatio sample_env (Str []) no_args
     = Inr (no_args(''splashscreenIconRatio'' := Num (Fin 40)))
   \<and> splashscreenIconRatio sample_env (Str ''abc'') no_args = die Invalid_ratio_number no_args
   \<and> splashscreenIconRatio sample_env (Str ''100.5'') no_args
     = die (Invalid_ratio (Str ''100.5'')) no_args
   \<and> splashscreenIconRatio sample_env (Str ''12.5'') no_args
     = Inr (no_args(''splashscreenIconRatio'' := Num (Fin (25 / 2))))
   \<and> splashscreenIconRatio sample_env (Num (Fin 100)) no_args
     = Inr (no_args(''splashscreenIconRatio'' := Num (Fin 100)))
   \<and> splashscreenIconRatio sample_env (Str ''40'') no_args
     = Inr (no_args(''splashscreenIconRatio'' := Num (Fin 40)))"
  using ratio_spec [where v = Undefined and E = sample_env and argv = no_args]
    ratio_spec [where v = "Str []" and E = sample_env and argv = no_args]
    ratio_spec [where v = "Str ''abc''" and E = sample_env and argv = no_args]
    ratio_spec [where v = "Str ''100.5''" and E = sample_env and argv = no_args]
    ratio_spec [where v = "Str ''12.5''" and q = "25 / 2" and E = sample_env and argv = no_args]
    ratio_spec [where n = 100 and E = sample_env and argv = no_args]
    ratio_spec [where ds = "''40''" and E = sample_env and argv = no_args]
  by (simp add: parseFloat_Str parseFloat_str_examples sample_env_def isDigit_def
        digitsVal_def digitVal_def)

end
